theory Spec2Isabelle
  imports Complex_Main
begin

section \<open>Numbers and tensors\<close>

text \<open>
  The notebooks compute on float tensors of the tensor library. A tensor element is
  modelled as a finite value or one of the three special values of IEEE arithmetic.
  Finite values are exact reals: rounding, overflow and the sign of zero are not
  modelled (a zero divisor counts as positive zero, which is what a norm returns);
  where rounding decides a property, the last section of definitions repeats the
  computations with every result rounded.
  The special values are there because the library's division never raises: a division
  by zero yields \<open>NaN\<close> or an infinity.
\<close>

datatype fl = Fin real | PInf | NInf | NaN

fun is_fin :: "fl \<Rightarrow> bool" where
  "is_fin (Fin x) = True"
| "is_fin PInf = False"
| "is_fin NInf = False"
| "is_fin NaN = False"

fun fneg :: "fl \<Rightarrow> fl" where
  "fneg (Fin x) = Fin (- x)"
| "fneg PInf = NInf"
| "fneg NInf = PInf"
| "fneg NaN = NaN"

fun fadd :: "fl \<Rightarrow> fl \<Rightarrow> fl" where
  "fadd (Fin x) (Fin y) = Fin (x + y)"
| "fadd (Fin x) PInf = PInf"
| "fadd (Fin x) NInf = NInf"
| "fadd (Fin x) NaN = NaN"
| "fadd PInf (Fin y) = PInf"
| "fadd PInf PInf = PInf"
| "fadd PInf NInf = NaN"
| "fadd PInf NaN = NaN"
| "fadd NInf (Fin y) = NInf"
| "fadd NInf PInf = NaN"
| "fadd NInf NInf = NInf"
| "fadd NInf NaN = NaN"
| "fadd NaN y = NaN"

definition fsub :: "fl \<Rightarrow> fl \<Rightarrow> fl" where
  "fsub x y = fadd x (fneg y)"

text \<open>The infinity with the sign of a non-zero real.\<close>

definition inf_of_sign :: "real \<Rightarrow> fl" where
  "inf_of_sign x = (if 0 < x then PInf else NInf)"

fun fmul :: "fl \<Rightarrow> fl \<Rightarrow> fl" where
  "fmul (Fin x) (Fin y) = Fin (x * y)"
| "fmul (Fin x) PInf = (if x = 0 then NaN else inf_of_sign x)"
| "fmul (Fin x) NInf = (if x = 0 then NaN else inf_of_sign (- x))"
| "fmul (Fin x) NaN = NaN"
| "fmul PInf (Fin y) = (if y = 0 then NaN else inf_of_sign y)"
| "fmul PInf PInf = PInf"
| "fmul PInf NInf = NInf"
| "fmul PInf NaN = NaN"
| "fmul NInf (Fin y) = (if y = 0 then NaN else inf_of_sign (- y))"
| "fmul NInf PInf = NInf"
| "fmul NInf NInf = PInf"
| "fmul NInf NaN = NaN"
| "fmul NaN y = NaN"

fun fdiv :: "fl \<Rightarrow> fl \<Rightarrow> fl" where
  "fdiv (Fin x) (Fin y) =
     (if y = 0 then (if x = 0 then NaN else inf_of_sign x) else Fin (x / y))"
| "fdiv (Fin x) PInf = Fin 0"
| "fdiv (Fin x) NInf = Fin 0"
| "fdiv (Fin x) NaN = NaN"
| "fdiv PInf (Fin y) = (if 0 \<le> y then PInf else NInf)"
| "fdiv PInf PInf = NaN"
| "fdiv PInf NInf = NaN"
| "fdiv PInf NaN = NaN"
| "fdiv NInf (Fin y) = (if 0 \<le> y then NInf else PInf)"
| "fdiv NInf PInf = NaN"
| "fdiv NInf NInf = NaN"
| "fdiv NInf NaN = NaN"
| "fdiv NaN y = NaN"

fun fsqrt :: "fl \<Rightarrow> fl" where
  "fsqrt (Fin x) = (if x < 0 then NaN else Fin (sqrt x))"
| "fsqrt PInf = PInf"
| "fsqrt NInf = NaN"
| "fsqrt NaN = NaN"

text \<open>
  An activation tensor has shape (batch, sequence length, hidden dimension): a list of
  batch entries, each a list of positions, each a list of hidden components. A nested
  list does not record the inner dimensions of a tensor with an empty outer one; the
  program never builds such a tensor (a forward evaluation has at least one batch
  entry and one position), and the theorems below say where they need a dimension
  to be positive.
\<close>

type_synonym vec = "fl list"
type_synonym mat = "vec list"
type_synonym tensor = "mat list"

definition has_shape :: "tensor \<Rightarrow> nat \<times> nat \<times> nat \<Rightarrow> bool" where
  "has_shape t d =
     (case d of (b, s, h) \<Rightarrow>
        length t = b \<and> list_all (\<lambda>m. length m = s \<and> list_all (\<lambda>r. length r = h) m) t)"

definition hidden_dim :: "nat \<Rightarrow> tensor \<Rightarrow> bool" where
  "hidden_dim h t = list_all (list_all (\<lambda>r. length r = h)) t"

definition finite_vec :: "vec \<Rightarrow> bool" where
  "finite_vec v = list_all is_fin v"

definition finite_tensor :: "tensor \<Rightarrow> bool" where
  "finite_tensor t = list_all (list_all finite_vec) t"

text \<open>What the tensor library and the interpreter raise on the paths modelled here.\<close>

datatype error = RuntimeError | IndexError | AttributeError | TypeError

fun sequence :: "(error + 'a) list \<Rightarrow> error + 'a list" where
  "sequence [] = Inr []"
| "sequence (Inl e # rs) = Inl e"
| "sequence (Inr x # rs) = (case sequence rs of Inl e \<Rightarrow> Inl e | Inr xs \<Rightarrow> Inr (x # xs))"

text \<open>
  Broadcasting along one dimension: two sizes are compatible when they are equal or one
  of them is 1, and the entry of a size-1 operand is reused for every entry of the other.
  Incompatible sizes raise.
\<close>

definition bcast :: "('a \<Rightarrow> 'a \<Rightarrow> error + 'a) \<Rightarrow> 'a list \<Rightarrow> 'a list \<Rightarrow> error + 'a list" where
  "bcast f xs ys =
     (if length xs = length ys then sequence (map2 f xs ys)
      else if length xs = 1 then sequence (map (f (hd xs)) ys)
      else if length ys = 1 then sequence (map (\<lambda>x. f x (hd ys)) xs)
      else Inl RuntimeError)"

definition tbin :: "(fl \<Rightarrow> fl \<Rightarrow> fl) \<Rightarrow> tensor \<Rightarrow> tensor \<Rightarrow> error + tensor" where
  "tbin g a b = bcast (bcast (bcast (\<lambda>x y. Inr (g x y)))) a b"

definition tadd :: "tensor \<Rightarrow> tensor \<Rightarrow> error + tensor" where
  "tadd = tbin fadd"

definition tsub :: "tensor \<Rightarrow> tensor \<Rightarrow> error + tensor" where
  "tsub = tbin fsub"

text \<open>
  The tensor \<open>t\<close> with the vector \<open>v\<close> added to every position of every batch entry: the
  sum that broadcasting a tensor of shape (1, 1, hidden) over \<open>t\<close> is stated against.
\<close>

definition add_to_rows :: "vec \<Rightarrow> tensor \<Rightarrow> tensor" where
  "add_to_rows v t = map (map (\<lambda>r. map2 fadd r v)) t"

text \<open>\<open>coeff * t\<close> for a Python number \<open>coeff\<close>.\<close>

definition tscale :: "real \<Rightarrow> tensor \<Rightarrow> tensor" where
  "tscale c t = map (map (map (fmul (Fin c)))) t"

text \<open>\<open>t / n\<close> for a zero-dimensional tensor \<open>n\<close>.\<close>

definition tdiv :: "tensor \<Rightarrow> fl \<Rightarrow> tensor" where
  "tdiv t n = map (map (map (\<lambda>x. fdiv x n))) t"

definition fsum :: "fl list \<Rightarrow> fl" where
  "fsum xs = foldr fadd xs (Fin 0)"

text \<open>\<open>v.norm()\<close> of a list of elements: the square root of the sum of the squares.\<close>

definition vnorm :: "fl list \<Rightarrow> fl" where
  "vnorm xs = fsqrt (fsum (map (\<lambda>x. fmul x x) xs))"

text \<open>\<open>t.norm()\<close>: the norm over all elements of the tensor.\<close>

definition tnorm :: "tensor \<Rightarrow> fl" where
  "tnorm t = vnorm (concat (concat t))"

text \<open>
  The slice \<open>t[:, -1:, :]\<close>: of every batch entry, the positions from the last one on
  (none when there is no position).
\<close>

definition last_slice :: "tensor \<Rightarrow> tensor" where
  "last_slice t = map (\<lambda>m. drop (length m - 1) m) t"

section \<open>Steering-vector derivation\<close>

text \<open>
  All notebooks:
  \<^verbatim>\<open>
  steering_vec = act_love[:,-1:,:]-act_hate[:,-1:,:]
  steering_vec /= steering_vec.norm()
  \<close>
  The subtraction builds a new tensor; the norm is computed first and the new tensor is
  then divided by it in place.
\<close>

definition steering_vec :: "tensor \<Rightarrow> tensor \<Rightarrow> error + tensor" where
  "steering_vec act_love act_hate =
     (case tsub (last_slice act_love) (last_slice act_hate) of
        Inl e \<Rightarrow> Inl e
      | Inr d \<Rightarrow> Inr (tdiv d (tnorm d)))"

section \<open>Injection and capture callbacks\<close>

text \<open>
  The output of a transformer block is a tuple whose first entry is the activation
  tensor; the other entries are opaque here. pytorch_hooks.ipynb:
  \<^verbatim>\<open>
  def act_add(steering_vec):
      def hook(module, input, output):
          return (output[0] + steering_vec,) + output[1:]
      return hook
  \<close>
  The addition broadcasts and builds a new tensor.
\<close>

type_synonym 'x block_out = "tensor \<times> 'x list"

definition act_add :: "tensor \<Rightarrow> 'x block_out \<Rightarrow> error + 'x block_out" where
  "act_add sv output =
     (case tadd (fst output) sv of
        Inl e \<Rightarrow> Inl e
      | Inr t \<Rightarrow> Inr (t, snd output))"

text \<open>
  Where the interception point returns a bare tensor (the layer norm of
  bias_editing.ipynb, the residual hook point of transformer_lens.ipynb):
  \<^verbatim>\<open>
  def act_add(steering_vec):
      def hook(output):
          return output + steering_vec
      return hook
  \<close>
\<close>

definition act_add_bare :: "tensor \<Rightarrow> tensor \<Rightarrow> error + tensor" where
  "act_add_bare sv output = tadd output sv"

text \<open>
  pytorch_hooks.ipynb:
  \<^verbatim>\<open>
  def cache_hook(cache):
      def hook(module, input, output):
          cache.append(output[0])
      return hook
  \<close>
  The hook returns nothing; the list \<open>cache\<close> it appends to is returned with it.
\<close>

definition cache_hook :: "tensor list \<Rightarrow> 'x block_out \<Rightarrow> 'x block_out option \<times> tensor list" where
  "cache_hook cache output = (None, cache @ [fst output])"

text \<open>
  The callbacks registered on a block (pytorch_hooks.ipynb) are \<open>cache_hook(cache)\<close>, for
  the one list \<open>cache\<close> of the notebook, and \<open>act_add(v)\<close>.
\<close>

datatype hook = CacheHook | ActAdd tensor

fun run_hook :: "hook \<Rightarrow> 'x block_out \<Rightarrow> tensor list \<Rightarrow> (error + 'x block_out option) \<times> tensor list" where
  "run_hook CacheHook output cache =
     (case cache_hook cache output of (r, cache') \<Rightarrow> (Inr r, cache'))"
| "run_hook (ActAdd v) output cache =
     (case act_add v output of Inl e \<Rightarrow> (Inl e, cache) | Inr out \<Rightarrow> (Inr (Some out), cache))"

text \<open>
  The callbacks on a point that returns a bare tensor: \<open>HookAdd v\<close> is \<open>act_add(v)\<close> added
  with \<open>model.add_hook\<close> (transformer_lens.ipynb); \<open>Trace edit\<close> is the callback of the
  tracing utility's \<open>Trace(module, edit_output=...)\<close> (bias_editing.ipynb), which applies
  \<open>edit_output\<close> when one is given, retains the resulting output as \<open>cache.output\<close> and
  returns it.
\<close>

datatype bare_hook = HookAdd tensor | Trace "tensor option"

fun run_bare_hook :: "bare_hook \<Rightarrow> tensor \<Rightarrow> tensor option \<Rightarrow> (error + tensor option) \<times> tensor option" where
  "run_bare_hook (HookAdd v) output kept =
     (case act_add_bare v output of Inl e \<Rightarrow> (Inl e, kept) | Inr out \<Rightarrow> (Inr (Some out), kept))"
| "run_bare_hook (Trace None) output kept = (Inr (Some output), Some output)"
| "run_bare_hook (Trace (Some v)) output kept =
     (case act_add_bare v output of Inl e \<Rightarrow> (Inl e, kept) | Inr out \<Rightarrow> (Inr (Some out), Some out))"

section \<open>Forward hooks of a module\<close>

text \<open>
  A module keeps its forward hooks in insertion order under fresh handle ids. Calling
  the module computes its output and passes it through the hooks in order; a hook that
  returns a value replaces the output, a hook that returns nothing leaves it. The
  field \<open>captured\<close> is what the callbacks write to (the list \<open>cache\<close>, or the retained
  \<open>cache.output\<close>). The field \<open>evals\<close> is a log kept for stating properties of runs: one
  entry per completed evaluation of the module, pairing the output it computed with
  the output it passed on.
\<close>

record ('h, 'c, 'o) hooked =
  hooks :: "(nat \<times> 'h) list"
  next_id :: nat
  captured :: 'c
  evals :: "('o \<times> 'o) list"

fun run_hooks :: "('h \<Rightarrow> 'o \<Rightarrow> 'c \<Rightarrow> (error + 'o option) \<times> 'c) \<Rightarrow> (nat \<times> 'h) list \<Rightarrow> 'o \<Rightarrow> 'c
    \<Rightarrow> (error + 'o) \<times> 'c" where
  "run_hooks run [] out c = (Inr out, c)"
| "run_hooks run (ih # hs) out c =
     (case run (snd ih) out c of
        (Inl e, c') \<Rightarrow> (Inl e, c')
      | (Inr None, c') \<Rightarrow> run_hooks run hs out c'
      | (Inr (Some out'), c') \<Rightarrow> run_hooks run hs out' c')"

definition module_call :: "('h \<Rightarrow> 'o \<Rightarrow> 'c \<Rightarrow> (error + 'o option) \<times> 'c) \<Rightarrow> 'o \<Rightarrow> ('h, 'c, 'o) hooked
    \<Rightarrow> (error + 'o) \<times> ('h, 'c, 'o) hooked" where
  "module_call run raw w =
     (case run_hooks run (hooks w) raw (captured w) of
        (Inl e, c') \<Rightarrow> (Inl e, w\<lparr>captured := c'\<rparr>)
      | (Inr out, c') \<Rightarrow> (Inr out, w\<lparr>captured := c', evals := evals w @ [(raw, out)]\<rparr>))"

text \<open>\<open>handle = module.register_forward_hook(hook)\<close> and \<open>handle.remove()\<close>.\<close>

definition register_forward_hook :: "'h \<Rightarrow> ('h, 'c, 'o) hooked \<Rightarrow> nat \<times> ('h, 'c, 'o) hooked" where
  "register_forward_hook h w =
     (next_id w, w\<lparr>hooks := hooks w @ [(next_id w, h)], next_id := Suc (next_id w)\<rparr>)"

definition remove :: "nat \<Rightarrow> ('h, 'c, 'o) hooked \<Rightarrow> ('h, 'c, 'o) hooked" where
  "remove i w = w\<lparr>hooks := filter (\<lambda>ih. fst ih \<noteq> i) (hooks w)\<rparr>"

text \<open>\<open>model.add_hook(name, hook)\<close> and \<open>model.reset_hooks()\<close> (transformer_lens.ipynb).\<close>

definition add_hook :: "'h \<Rightarrow> ('h, 'c, 'o) hooked \<Rightarrow> ('h, 'c, 'o) hooked" where
  "add_hook h w = snd (register_forward_hook h w)"

definition reset_hooks :: "('h, 'c, 'o) hooked \<Rightarrow> ('h, 'c, 'o) hooked" where
  "reset_hooks w = w\<lparr>hooks := []\<rparr>"

text \<open>
  \<open>with Trace(module, edit_output=edit) as cache: body\<close>: the hook is registered on
  entry and removed on exit, however the body ends.
\<close>

definition with_trace :: "tensor option \<Rightarrow> ((bare_hook, 'c, 'o) hooked \<Rightarrow> 'r \<times> (bare_hook, 'c, 'o) hooked)
    \<Rightarrow> (bare_hook, 'c, 'o) hooked \<Rightarrow> 'r \<times> (bare_hook, 'c, 'o) hooked" where
  "with_trace edit body w =
     (case register_forward_hook (Trace edit) w of
        (i, w1) \<Rightarrow> (case body w1 of (r, w2) \<Rightarrow> (r, remove i w2)))"

section \<open>The wrapper module\<close>

text \<open>
  custom_wrapper.ipynb:
  \<^verbatim>\<open>
  class WrappedModule(torch.nn.Module):
      def __init__(self, module):
          self.module = module
          self.output = None
          self.steering_vec = None
      def forward(self, *args, **kwargs):
          self.output = self.module(*args, **kwargs)
          if self.steering_vec is not None:
              return (self.output[0] + self.steering_vec,) + self.output[1:]
          else:
              return self.output
  \<close>
  A layer of the model is the pretrained block, a function of the token sequence that
  is taken to return, or a wrapper around a layer with its fields \<open>module\<close>, \<open>output\<close>
  and \<open>steering_vec\<close>.
\<close>

datatype 'x layer =
  Block "nat list \<Rightarrow> 'x block_out"
| WrappedModule "'x layer" "'x block_out option" "tensor option"

fun layer_forward :: "'x layer \<Rightarrow> nat list \<Rightarrow> (error + 'x block_out) \<times> 'x layer" where
  "layer_forward (Block f) ids = (Inr (f ids), Block f)"
| "layer_forward (WrappedModule m out sv) ids =
     (case layer_forward m ids of
        (Inl e, m') \<Rightarrow> (Inl e, WrappedModule m' out sv)
      | (Inr y, m') \<Rightarrow>
          (case sv of
             None \<Rightarrow> (Inr y, WrappedModule m' (Some y) sv)
           | Some v \<Rightarrow> (act_add v y, WrappedModule m' (Some y) sv)))"

text \<open>\<open>model.transformer.h[layer_id] = WrappedModule(model.transformer.h[layer_id])\<close>\<close>

definition wrap :: "'x layer \<Rightarrow> 'x layer" where
  "wrap l = WrappedModule l None None"

text \<open>\<open>model.transformer.h[layer_id] = model.transformer.h[layer_id].module\<close>\<close>

fun unwrap :: "'x layer \<Rightarrow> error + 'x layer" where
  "unwrap (WrappedModule m out sv) = Inr m"
| "unwrap (Block f) = Inl AttributeError"

text \<open>
  \<open>model.transformer.h[layer_id].steering_vec = v\<close>; on a block that is not wrapped the
  assignment only adds an attribute that its forward computation never reads.
\<close>

fun set_steering_vec :: "tensor \<Rightarrow> 'x layer \<Rightarrow> 'x layer" where
  "set_steering_vec v (WrappedModule m out sv) = WrappedModule m out (Some v)"
| "set_steering_vec v (Block f) = Block f"

text \<open>\<open>model.transformer.h[layer_id].output[0]\<close>\<close>

fun output_activation :: "'x layer \<Rightarrow> error + tensor" where
  "output_activation (WrappedModule m (Some y) sv) = Inr (fst y)"
| "output_activation (WrappedModule m None sv) = Inl TypeError"
| "output_activation (Block f) = Inl AttributeError"

section \<open>Forward pass and generation\<close>

text \<open>
  The pretrained model and the generation driver are external. A forward pass
  evaluates the interception point on the token sequence, which may change the state
  attached to the point, and the rest of the model turns what the point passed on
  into the next token (greedy decoding, \<open>do_sample=False\<close>). The point and the rest
  of the model are parameters: any function of the token sequence, and any function
  of the token sequence and of what the point passed on. The driver's cache of keys
  and values is not a part of the state: every call of \<open>generate\<close> starts with an empty
  one, and within a call it holds what the computation on the tokens so far gives.
\<close>

definition forward :: "(nat list \<Rightarrow> 's \<Rightarrow> (error + 'o) \<times> 's) \<Rightarrow> (nat list \<Rightarrow> 'o \<Rightarrow> error + nat)
    \<Rightarrow> nat list \<Rightarrow> 's \<Rightarrow> (error + nat) \<times> 's" where
  "forward eval_point rest ids s =
     (case eval_point ids s of
        (Inl e, s') \<Rightarrow> (Inl e, s')
      | (Inr out, s') \<Rightarrow> (rest ids out, s'))"

text \<open>A point with forward hooks, and a layer that may be wrapped.\<close>

definition hooked_point :: "('h \<Rightarrow> 'o \<Rightarrow> 'c \<Rightarrow> (error + 'o option) \<times> 'c) \<Rightarrow> (nat list \<Rightarrow> 'o)
    \<Rightarrow> nat list \<Rightarrow> ('h, 'c, 'o) hooked \<Rightarrow> (error + 'o) \<times> ('h, 'c, 'o) hooked" where
  "hooked_point run point ids w = module_call run (point ids) w"

definition layer_point :: "nat list \<Rightarrow> 'x layer \<Rightarrow> (error + 'x block_out) \<times> 'x layer" where
  "layer_point ids l = layer_forward l ids"

text \<open>
  \<open>model.generate(..., max_new_tokens=n, do_sample=False)\<close>: one forward pass per new
  token, on the tokens so far; generation stops after \<open>n\<close> new tokens or after the
  end-of-sequence token.
\<close>

fun generate :: "(nat list \<Rightarrow> 's \<Rightarrow> (error + nat) \<times> 's) \<Rightarrow> nat \<Rightarrow> nat \<Rightarrow> nat list \<Rightarrow> 's
    \<Rightarrow> (error + nat list) \<times> 's" where
  "generate fwd eos 0 ids s = (Inr ids, s)"
| "generate fwd eos (Suc n) ids s =
     (case fwd ids s of
        (Inl e, s') \<Rightarrow> (Inl e, s')
      | (Inr tok, s') \<Rightarrow>
          if tok = eos then (Inr (ids @ [tok]), s')
          else generate fwd eos n (ids @ [tok]) s')"

text \<open>The token sequences on which the forward passes of a generation run.\<close>

definition contexts :: "nat list \<Rightarrow> nat list \<Rightarrow> nat list list" where
  "contexts ids ids' = map (\<lambda>k. take k ids') [length ids..<length ids']"

section \<open>Editing the bias of the attention projection\<close>

text \<open>
  The projection \<open>attn.c_attn\<close> is a layer \<open>y = x W + b\<close> with \<open>W\<close> of shape (nx, nf):
  \<^verbatim>\<open>
  def forward(self, x):
      size_out = x.size()[:-1] + (self.nf,)
      x = torch.addmm(self.bias, x.view(-1, x.size(-1)), self.weight)
      x = x.view(size_out)
      return x
  \<close>
  Its argument and its bias are tensors of any rank up to three.
\<close>

datatype nd = R0 fl | R1 vec | R2 mat | R3 tensor

record conv1d =
  nf :: nat
  weight :: mat
  bias :: nd

text \<open>A weight of shape (nx, n) with finite entries.\<close>

definition wf_weight :: "nat \<Rightarrow> mat \<Rightarrow> bool" where
  "wf_weight n W = list_all (\<lambda>w. finite_vec w \<and> length w = n) W"

text \<open>\<open>t.squeeze()\<close> drops every dimension of size 1.\<close>

definition squeeze1 :: "vec \<Rightarrow> nd" where
  "squeeze1 v = (if length v = 1 then R0 (hd v) else R1 v)"

definition squeeze2 :: "mat \<Rightarrow> nd" where
  "squeeze2 m =
     (if length m = 1 then squeeze1 (hd m)
      else if list_all (\<lambda>r. length r = 1) m then R1 (map hd m)
      else R2 m)"

definition squeeze :: "tensor \<Rightarrow> nd" where
  "squeeze t =
     (if length t = 1 then squeeze2 (hd t)
      else if list_all (\<lambda>m. length m = 1) t then squeeze2 (map hd t)
      else if list_all (list_all (\<lambda>r. length r = 1)) t then R2 (map (map hd) t)
      else R3 t)"

text \<open>\<open>x.view(-1, x.size(-1))\<close>: the rows of \<open>x\<close>; a zero-dimensional \<open>x\<close> has no last size.\<close>

fun rows_of :: "nd \<Rightarrow> error + mat" where
  "rows_of (R0 c) = Inl IndexError"
| "rows_of (R1 v) = Inr [v]"
| "rows_of (R2 m) = Inr m"
| "rows_of (R3 t) = Inr (concat t)"

fun unflat :: "nat list \<Rightarrow> 'a list \<Rightarrow> 'a list list" where
  "unflat [] ys = []"
| "unflat (n # ns) ys = take n ys # unflat ns (drop n ys)"

text \<open>
  \<open>y.view(size_out)\<close>: the rows of the result, arranged like the rows of \<open>x\<close>. For a
  zero-dimensional \<open>x\<close> the line before has raised and the first equation is never used.
\<close>

fun view_like :: "nd \<Rightarrow> mat \<Rightarrow> nd" where
  "view_like (R0 c) y = R2 y"
| "view_like (R1 v) y = R1 (concat y)"
| "view_like (R2 m) y = R2 y"
| "view_like (R3 t) y = R3 (unflat (map length t) y)"

text \<open>The product of a row \<open>x\<close> with \<open>W\<close>: the sum over \<open>i\<close> of \<open>x\<^sub>i\<close> times the \<open>i\<close>-th row of \<open>W\<close>.\<close>

fun vecmat :: "nat \<Rightarrow> vec \<Rightarrow> mat \<Rightarrow> vec" where
  "vecmat n (x # xs) (w # ws) = map2 fadd (map (fmul x) w) (vecmat n xs ws)"
| "vecmat n xs ws = replicate n (Fin 0)"

text \<open>The bias of \<open>addmm\<close> is expanded to the shape (rows, nf) of the product.\<close>

definition expand :: "nat \<Rightarrow> 'a list \<Rightarrow> error + 'a list" where
  "expand n xs =
     (if length xs = n then Inr xs
      else if length xs = 1 then Inr (replicate n (hd xs))
      else Inl RuntimeError)"

fun as_mat :: "nd \<Rightarrow> error + mat" where
  "as_mat (R0 c) = Inr [[c]]"
| "as_mat (R1 v) = Inr [v]"
| "as_mat (R2 m) = Inr m"
| "as_mat (R3 t) = Inl RuntimeError"

definition expand_bias :: "nat \<Rightarrow> nat \<Rightarrow> nd \<Rightarrow> error + mat" where
  "expand_bias k n b =
     (case as_mat b of
        Inl e \<Rightarrow> Inl e
      | Inr m \<Rightarrow>
          (case sequence (map (expand n) m) of
             Inl e \<Rightarrow> Inl e
           | Inr m' \<Rightarrow> expand k m'))"

definition addmm :: "nd \<Rightarrow> mat \<Rightarrow> mat \<Rightarrow> nat \<Rightarrow> error + mat" where
  "addmm b x W n =
     (if list_all (\<lambda>r. length r = length W) x then
        (case expand_bias (length x) n b of
           Inl e \<Rightarrow> Inl e
         | Inr be \<Rightarrow> Inr (map2 (map2 fadd) be (map (\<lambda>r. vecmat n r W) x)))
      else Inl RuntimeError)"

definition conv1d_forward :: "conv1d \<Rightarrow> nd \<Rightarrow> error + nd" where
  "conv1d_forward c x =
     (case rows_of x of
        Inl e \<Rightarrow> Inl e
      | Inr rows \<Rightarrow>
          (case addmm (bias c) rows (weight c) (nf c) of
             Inl e \<Rightarrow> Inl e
           | Inr y \<Rightarrow> Inr (view_like x y)))"

text \<open>
  bias_editing.ipynb, on the projection \<open>model.transformer.h[layer_id].attn.c_attn\<close>:
  \<^verbatim>\<open>
  def reset_bias_attn(model, layer_id, org_bias):
      model.transformer.h[layer_id].attn.c_attn.bias = org_bias

  def change_bias_attn(model, layer_id, steering_vec):
      tilde_b = model.transformer.h[layer_id].attn.c_attn(steering_vec.squeeze())
      model.transformer.h[layer_id].attn.c_attn.bias = torch.nn.parameter.Parameter(tilde_b)
  \<close>
  Both rebind the attribute \<open>bias\<close>; neither writes into the tensor that was bound to it
  before. When the projection raises, the assignment is not reached.
\<close>

definition reset_bias_attn :: "conv1d \<Rightarrow> nd \<Rightarrow> conv1d" where
  "reset_bias_attn c_attn org_bias = c_attn\<lparr>bias := org_bias\<rparr>"

definition change_bias_attn :: "conv1d \<Rightarrow> tensor \<Rightarrow> error + conv1d" where
  "change_bias_attn c_attn sv =
     (case conv1d_forward c_attn (squeeze sv) of
        Inl e \<Rightarrow> Inl e
      | Inr tilde_b \<Rightarrow> Inr (c_attn\<lparr>bias := tilde_b\<rparr>))"

text \<open>
  The layer norm \<open>ln_1\<close> of the block feeds the projection and nothing else: after the
  interception point comes \<open>c_attn\<close>, then the remainder of the model.
\<close>

definition attn_rest :: "conv1d \<Rightarrow> (nat list \<Rightarrow> nd \<Rightarrow> nat) \<Rightarrow> nat list \<Rightarrow> tensor \<Rightarrow> error + nat" where
  "attn_rest c_attn tail ids x =
     (case conv1d_forward c_attn (R3 x) of
        Inl e \<Rightarrow> Inl e
      | Inr y \<Rightarrow> Inr (tail ids y))"

section \<open>The arithmetic of the tensor library\<close>

text \<open>
  The tensor library rounds the result of every addition and multiplication to its
  number format. \<open>round32\<close> is rounding to the nearest value with 24 significant bits,
  a tie going to the even one: the format binary32 with an unbounded exponent (no
  overflow to infinity, no subnormal numbers).
\<close>

definition round_even :: "real \<Rightarrow> int" where
  "round_even q =
     (let f = \<lfloor>q\<rfloor> in
      if q - of_int f < 1 / 2 then f
      else if 1 / 2 < q - of_int f then f + 1
      else if even f then f else f + 1)"

definition round32 :: "real \<Rightarrow> real" where
  "round32 x =
     (if x = 0 then 0
      else (let u = 2 powr (of_int \<lfloor>log 2 \<bar>x\<bar>\<rfloor> - 23)
            in of_int (round_even (x / u)) * u))"

text \<open>
  The computations of bias_editing.ipynb once more, with the result of every addition
  and multiplication rounded by \<open>rnd\<close>. With the identity for \<open>rnd\<close> they are the
  definitions above; with \<open>round32\<close> they are what the notebook computes on binary32
  tensors.
\<close>

fun fround :: "(real \<Rightarrow> real) \<Rightarrow> fl \<Rightarrow> fl" where
  "fround rnd (Fin x) = Fin (rnd x)"
| "fround rnd PInf = PInf"
| "fround rnd NInf = NInf"
| "fround rnd NaN = NaN"

definition fadd_r :: "(real \<Rightarrow> real) \<Rightarrow> fl \<Rightarrow> fl \<Rightarrow> fl" where
  "fadd_r rnd x y = fround rnd (fadd x y)"

definition fmul_r :: "(real \<Rightarrow> real) \<Rightarrow> fl \<Rightarrow> fl \<Rightarrow> fl" where
  "fmul_r rnd x y = fround rnd (fmul x y)"

definition tadd_r :: "(real \<Rightarrow> real) \<Rightarrow> tensor \<Rightarrow> tensor \<Rightarrow> error + tensor" where
  "tadd_r rnd = tbin (fadd_r rnd)"

definition tscale_r :: "(real \<Rightarrow> real) \<Rightarrow> real \<Rightarrow> tensor \<Rightarrow> tensor" where
  "tscale_r rnd c t = map (map (map (fmul_r rnd (Fin (rnd c))))) t"

definition act_add_bare_r :: "(real \<Rightarrow> real) \<Rightarrow> tensor \<Rightarrow> tensor \<Rightarrow> error + tensor" where
  "act_add_bare_r rnd sv output = tadd_r rnd output sv"

fun run_bare_hook_r :: "(real \<Rightarrow> real) \<Rightarrow> bare_hook \<Rightarrow> tensor \<Rightarrow> tensor option
    \<Rightarrow> (error + tensor option) \<times> tensor option" where
  "run_bare_hook_r rnd (HookAdd v) output kept =
     (case act_add_bare_r rnd v output of
        Inl e \<Rightarrow> (Inl e, kept) | Inr out \<Rightarrow> (Inr (Some out), kept))"
| "run_bare_hook_r rnd (Trace None) output kept = (Inr (Some output), Some output)"
| "run_bare_hook_r rnd (Trace (Some v)) output kept =
     (case act_add_bare_r rnd v output of
        Inl e \<Rightarrow> (Inl e, kept) | Inr out \<Rightarrow> (Inr (Some out), Some out))"

fun vecmat_r :: "(real \<Rightarrow> real) \<Rightarrow> nat \<Rightarrow> vec \<Rightarrow> mat \<Rightarrow> vec" where
  "vecmat_r rnd n (x # xs) (w # ws) =
     map2 (fadd_r rnd) (map (fmul_r rnd x) w) (vecmat_r rnd n xs ws)"
| "vecmat_r rnd n xs ws = replicate n (Fin 0)"

definition addmm_r :: "(real \<Rightarrow> real) \<Rightarrow> nd \<Rightarrow> mat \<Rightarrow> mat \<Rightarrow> nat \<Rightarrow> error + mat" where
  "addmm_r rnd b x W n =
     (if list_all (\<lambda>r. length r = length W) x then
        (case expand_bias (length x) n b of
           Inl e \<Rightarrow> Inl e
         | Inr be \<Rightarrow> Inr (map2 (map2 (fadd_r rnd)) be (map (\<lambda>r. vecmat_r rnd n r W) x)))
      else Inl RuntimeError)"

definition conv1d_forward_r :: "(real \<Rightarrow> real) \<Rightarrow> conv1d \<Rightarrow> nd \<Rightarrow> error + nd" where
  "conv1d_forward_r rnd c x =
     (case rows_of x of
        Inl e \<Rightarrow> Inl e
      | Inr rows \<Rightarrow>
          (case addmm_r rnd (bias c) rows (weight c) (nf c) of
             Inl e \<Rightarrow> Inl e
           | Inr y \<Rightarrow> Inr (view_like x y)))"

definition change_bias_attn_r :: "(real \<Rightarrow> real) \<Rightarrow> conv1d \<Rightarrow> tensor \<Rightarrow> error + conv1d" where
  "change_bias_attn_r rnd c_attn sv =
     (case conv1d_forward_r rnd c_attn (squeeze sv) of
        Inl e \<Rightarrow> Inl e
      | Inr tilde_b \<Rightarrow> Inr (c_attn\<lparr>bias := tilde_b\<rparr>))"

definition attn_rest_r :: "(real \<Rightarrow> real) \<Rightarrow> conv1d \<Rightarrow> (nat list \<Rightarrow> nd \<Rightarrow> nat) \<Rightarrow> nat list \<Rightarrow> tensor
    \<Rightarrow> error + nat" where
  "attn_rest_r rnd c_attn tail ids x =
     (case conv1d_forward_r rnd c_attn (R3 x) of
        Inl e \<Rightarrow> Inl e
      | Inr y \<Rightarrow> Inr (tail ids y))"

section \<open>Facts about tensors\<close>

lemma sequence_map_Inr: "sequence (map (\<lambda>x. Inr (g x)) xs) = Inr (map g xs)"
  by (induction xs) auto

lemma bcast_single_right: "bcast f xs [y] = sequence (map (\<lambda>x. f x y) xs)"
  by (cases xs rule: list.exhaust; cases "tl xs") (auto simp: bcast_def)

lemma bcast_same:
  assumes "length xs = length ys"
    and "\<And>x y. (x, y) \<in> set (zip xs ys) \<Longrightarrow> f x y = Inr (g x y)"
  shows "bcast f xs ys = Inr (map2 g xs ys)"
proof -
  have eq: "map2 f xs ys = map (\<lambda>p. Inr (case p of (x, y) \<Rightarrow> g x y)) (zip xs ys)"
    using assms(2) by (intro map_cong) auto
  have "sequence (map2 f xs ys) = Inr (map2 g xs ys)"
    unfolding eq by (rule sequence_map_Inr)
  with assms(1) show ?thesis
    by (simp add: bcast_def)
qed

lemma drop_last: "m \<noteq> [] \<Longrightarrow> drop (length m - 1) m = [last m]"
  by (induction m rule: rev_induct) auto

lemma has_shapeD:
  assumes "has_shape t (b, s, h)"
  shows "length t = b" and "\<And>m. m \<in> set t \<Longrightarrow> length m = s"
    and "\<And>m r. m \<in> set t \<Longrightarrow> r \<in> set m \<Longrightarrow> length r = h"
  using assms by (auto simp: has_shape_def list_all_iff)

lemma has_shapeI:
  assumes "length t = b" and "\<And>m. m \<in> set t \<Longrightarrow> length m = s"
    and "\<And>m r. m \<in> set t \<Longrightarrow> r \<in> set m \<Longrightarrow> length r = h"
  shows "has_shape t (b, s, h)"
  using assms by (auto simp: has_shape_def list_all_iff)

lemma tbin_same_shape:
  assumes "has_shape a (b, s, h)" and "has_shape c (b, s, h)"
  shows "tbin g a c = Inr (map2 (map2 (map2 g)) a c)"
  unfolding tbin_def
proof (rule bcast_same)
  show "length a = length c"
    using assms by (simp add: has_shapeD(1))
next
  fix m1 m2 assume mem: "(m1, m2) \<in> set (zip a c)"
  then have m1: "m1 \<in> set a" and m2: "m2 \<in> set c"
    by (auto dest: set_zip_leftD set_zip_rightD)
  show "bcast (bcast (\<lambda>x y. Inr (g x y))) m1 m2 = Inr (map2 (map2 g) m1 m2)"
  proof (rule bcast_same)
    show "length m1 = length m2"
      using assms m1 m2 by (simp add: has_shapeD(2))
  next
    fix r1 r2 assume "(r1, r2) \<in> set (zip m1 m2)"
    then have "r1 \<in> set m1" and "r2 \<in> set m2"
      by (auto dest: set_zip_leftD set_zip_rightD)
    then have "length r1 = length r2"
      using assms m1 m2 by (simp add: has_shapeD(3))
    then show "bcast (\<lambda>x y. Inr (g x y)) r1 r2 = Inr (map2 g r1 r2)"
      by (rule bcast_same) simp
  qed
qed

lemma last_slice_nonempty:
  assumes "has_shape t (b, s, h)" and "0 < s"
  shows "last_slice t = map (\<lambda>m. [last m]) t"
  unfolding last_slice_def
proof (rule map_cong[OF refl])
  fix m assume "m \<in> set t"
  then have "m \<noteq> []" using assms by (auto dest: has_shapeD(2))
  then show "drop (length m - 1) m = [last m]" by (rule drop_last)
qed

lemma has_shape_last_slice:
  assumes "has_shape t (b, s, h)" and "0 < s"
  shows "has_shape (last_slice t) (b, 1, h)"
proof -
  have "length (last m) = h" if "m \<in> set t" for m
  proof -
    from that assms have "m \<noteq> []" by (auto dest: has_shapeD(2))
    then have "last m \<in> set m" by simp
    with that assms(1) show ?thesis by (simp add: has_shapeD(3))
  qed
  then show ?thesis
    using assms by (auto simp: last_slice_nonempty intro!: has_shapeI dest: has_shapeD(1))
qed

lemma map2_last_slices:
  "map2 (map2 f) (map (\<lambda>m. [last m]) a) (map (\<lambda>m. [last m]) c)
     = map2 (\<lambda>m1 m2. [f (last m1) (last m2)]) a c"
  by (simp add: zip_map_map case_prod_unfold)

lemma tsub_last_slices:
  assumes "has_shape a (b, s1, h)" and "has_shape c (b, s2, h)" and "0 < s1" and "0 < s2"
  shows "tsub (last_slice a) (last_slice c)
           = Inr (map2 (\<lambda>m1 m2. [map2 fsub (last m1) (last m2)]) a c)"
proof -
  have "tsub (last_slice a) (last_slice c)
          = Inr (map2 (map2 (map2 fsub)) (last_slice a) (last_slice c))"
    unfolding tsub_def
    by (rule tbin_same_shape[OF has_shape_last_slice[OF assms(1,3)] has_shape_last_slice[OF assms(2,4)]])
  then show ?thesis
    using assms by (simp add: last_slice_nonempty[of a b s1 h] last_slice_nonempty[of c b s2 h] map2_last_slices)
qed

lemma finite_vec_conv: "finite_vec v \<longleftrightarrow> (\<exists>rs. v = map Fin rs)"
proof
  assume "finite_vec v"
  then show "\<exists>rs. v = map Fin rs"
  proof (induction v)
    case Nil
    then show ?case by simp
  next
    case (Cons x v)
    then obtain rs where "v = map Fin rs" by (auto simp: finite_vec_def)
    moreover from Cons.prems obtain r where "x = Fin r"
      by (cases x) (auto simp: finite_vec_def)
    ultimately have "x # v = map Fin (r # rs)" by simp
    then show ?case by (rule exI)
  qed
next
  assume "\<exists>rs. v = map Fin rs"
  then show "finite_vec v" by (auto simp: finite_vec_def list_all_iff)
qed

lemma fsum_Fin: "fsum (map Fin rs) = Fin (sum_list rs)"
  by (induction rs) (auto simp: fsum_def)

lemma vnorm_Fin: "vnorm (map Fin rs) = Fin (sqrt (\<Sum>r\<leftarrow>rs. r * r))"
proof -
  have "map (\<lambda>x. fmul x x) (map Fin rs) = map Fin (map (\<lambda>r. r * r) rs)"
    by simp
  moreover have "0 \<le> (\<Sum>r\<leftarrow>rs. r * r)"
    by (rule sum_list_nonneg) auto
  ultimately show ?thesis
    by (simp add: vnorm_def fsum_Fin del: map_map)
qed

lemma vnorm_normalised:
  assumes "finite_vec v" and "vnorm v \<noteq> Fin 0"
  shows "vnorm (map (\<lambda>x. fdiv x (vnorm v)) v) = Fin 1"
proof -
  from assms(1) obtain rs where v: "v = map Fin rs"
    by (auto simp: finite_vec_conv)
  define q where "q = (\<Sum>r\<leftarrow>rs. r * r)"
  define n where "n = sqrt q"
  have nv: "vnorm v = Fin n"
    by (simp add: v vnorm_Fin n_def q_def)
  with assms(2) have n0: "n \<noteq> 0" by simp
  have q0: "0 \<le> q" unfolding q_def by (rule sum_list_nonneg) auto
  have nn: "n * n = q" using q0 by (simp add: n_def)
  have "map (\<lambda>x. fdiv x (Fin n)) (map Fin rs) = map Fin (map (\<lambda>r. r / n) rs)"
    using n0 by simp
  then have "vnorm (map (\<lambda>x. fdiv x (Fin n)) (map Fin rs)) = Fin (sqrt (\<Sum>r\<leftarrow>map (\<lambda>r. r / n) rs. r * r))"
    by (simp only: vnorm_Fin)
  then have "vnorm (map (\<lambda>x. fdiv x (vnorm v)) v) = Fin (sqrt (\<Sum>r\<leftarrow>map (\<lambda>r. r / n) rs. r * r))"
    unfolding nv unfolding v .
  also have "(\<Sum>r\<leftarrow>map (\<lambda>r. r / n) rs. r * r) = (\<Sum>r\<leftarrow>rs. (r * r) / (n * n))"
    by (simp add: comp_def)
  also have "\<dots> = q / (n * n)"
    unfolding q_def by (simp add: divide_inverse sum_list_mult_const)
  also have "\<dots> = 1" using n0 by (simp add: nn[symmetric])
  finally show ?thesis by simp
qed

lemma concat_tdiv: "concat (concat (tdiv t n)) = map (\<lambda>x. fdiv x n) (concat (concat t))"
  by (simp add: tdiv_def map_concat comp_def)

lemma finite_tensor_flat: "finite_tensor t \<Longrightarrow> finite_vec (concat (concat t))"
  by (auto simp: finite_tensor_def finite_vec_def list_all_iff)

lemma tnorm_normalised:
  assumes "finite_tensor d" and "tnorm d \<noteq> Fin 0"
  shows "tnorm (tdiv d (tnorm d)) = Fin 1"
  using vnorm_normalised[OF finite_tensor_flat[OF assms(1)]] assms(2)
  by (simp add: tnorm_def concat_tdiv)

lemma fsub_Fin [simp]: "fsub (Fin x) (Fin y) = Fin (x - y)"
  by (simp add: fsub_def)

lemma finite_vec_map2:
  assumes "finite_vec r1" and "finite_vec r2" and "\<And>x y. g (Fin x) (Fin y) = Fin (k x y)"
  shows "finite_vec (map2 g r1 r2)"
proof -
  from assms obtain a b where "r1 = map Fin a" "r2 = map Fin b"
    by (auto simp: finite_vec_conv)
  then have "map2 g r1 r2 = map Fin (map2 k a b)"
    by (simp add: zip_map_map assms(3) case_prod_unfold)
  then have "\<exists>rs. map2 g r1 r2 = map Fin rs" by (rule exI)
  then show ?thesis by (simp only: finite_vec_conv)
qed

lemma finite_last_diff:
  assumes "finite_tensor a" and "finite_tensor c"
    and "has_shape a (b, s1, h)" and "has_shape c (b, s2, h)" and "0 < s1" and "0 < s2"
  shows "finite_tensor (map2 (\<lambda>m1 m2. [map2 fsub (last m1) (last m2)]) a c)"
proof -
  have "finite_vec (map2 fsub (last m1) (last m2))" if "(m1, m2) \<in> set (zip a c)" for m1 m2
  proof -
    from that have m1: "m1 \<in> set a" and m2: "m2 \<in> set c"
      by (auto dest: set_zip_leftD set_zip_rightD)
    with assms have "m1 \<noteq> []" "m2 \<noteq> []" by (auto dest: has_shapeD(2))
    then have "last m1 \<in> set m1" "last m2 \<in> set m2" by simp_all
    with m1 m2 assms(1,2) have "finite_vec (last m1)" "finite_vec (last m2)"
      by (auto simp: finite_tensor_def list_all_iff)
    then show ?thesis by (rule finite_vec_map2) simp
  qed
  then show ?thesis
    by (auto simp: finite_tensor_def list_all_iff)
qed

lemma has_shape_last_diff:
  assumes "has_shape a (b, s1, h)" and "has_shape c (b, s2, h)" and "0 < s1" and "0 < s2"
  shows "has_shape (tdiv (map2 (\<lambda>m1 m2. [map2 g (last m1) (last m2)]) a c) n) (b, 1, h)"
proof (rule has_shapeI)
  show "length (tdiv (map2 (\<lambda>m1 m2. [map2 g (last m1) (last m2)]) a c) n) = b"
    using assms by (simp add: tdiv_def has_shapeD(1))
next
  fix m assume "m \<in> set (tdiv (map2 (\<lambda>m1 m2. [map2 g (last m1) (last m2)]) a c) n)"
  then obtain m1 m2 where mem: "(m1, m2) \<in> set (zip a c)"
    and m: "m = [map (\<lambda>x. fdiv x n) (map2 g (last m1) (last m2))]"
    by (auto simp: tdiv_def)
  show "length m = 1" by (simp add: m)
  fix r assume "r \<in> set m"
  then have r: "r = map (\<lambda>x. fdiv x n) (map2 g (last m1) (last m2))" by (simp add: m)
  from mem have m1: "m1 \<in> set a" and m2: "m2 \<in> set c"
    by (auto dest: set_zip_leftD set_zip_rightD)
  with assms have "m1 \<noteq> []" "m2 \<noteq> []" by (auto dest: has_shapeD(2))
  then have "last m1 \<in> set m1" "last m2 \<in> set m2" by simp_all
  with m1 m2 assms(1,2) have "length (last m1) = h" "length (last m2) = h"
    by (auto dest: has_shapeD(3))
  then show "length r = h" by (simp add: r)
qed

text \<open>
  Claim C2. For two captured activation tensors with finite entries, the same batch size
  and hidden dimension and any positive sequence lengths, whose last-position
  difference \<open>d\<close> has a non-zero norm, the derived steering vector is \<open>d\<close> divided by
  its norm, has shape (batch, 1, hidden) and has norm 1. The derivation is a function of
  the two tensors. Finite values are exact reals here, so the norm is exactly 1.
\<close>

theorem steering_vec_unit_norm:
  assumes "finite_tensor act_love" and "finite_tensor act_hate"
    and "has_shape act_love (b, s1, h)" and "has_shape act_hate (b, s2, h)"
    and "0 < s1" and "0 < s2"
    and "d = map2 (\<lambda>m1 m2. [map2 fsub (last m1) (last m2)]) act_love act_hate"
    and "tnorm d \<noteq> Fin 0"
  shows "steering_vec act_love act_hate = Inr (tdiv d (tnorm d))
         \<and> has_shape (tdiv d (tnorm d)) (b, 1, h)
         \<and> tnorm (tdiv d (tnorm d)) = Fin 1"
proof -
  have "tsub (last_slice act_love) (last_slice act_hate) = Inr d"
    unfolding assms(7) using assms(3,4,5,6) by (rule tsub_last_slices)
  then have "steering_vec act_love act_hate = Inr (tdiv d (tnorm d))"
    by (simp add: steering_vec_def)
  moreover have "has_shape (tdiv d (tnorm d)) (b, 1, h)"
    unfolding assms(7) using assms(3,4,5,6) by (rule has_shape_last_diff)
  moreover have "finite_tensor d"
    unfolding assms(7) using assms(1,2,3,4,5,6) by (rule finite_last_diff)
  then have "tnorm (tdiv d (tnorm d)) = Fin 1"
    using assms(8) by (rule tnorm_normalised)
  ultimately show ?thesis by simp
qed

lemma sqrt_25: "sqrt 25 = 5"
proof -
  have "sqrt (5\<^sup>2) = 5" by simp
  then show ?thesis by simp
qed

text \<open>
  An instance of C2: sequence lengths 1 and 2, difference (3, 4) of norm 5.
\<close>

theorem steering_vec_unit_norm_witness:
  "finite_tensor [[[Fin 4, Fin 6]]] \<and> finite_tensor [[[Fin 0, Fin 0], [Fin 1, Fin 2]]]
   \<and> has_shape [[[Fin 4, Fin 6]]] (1, 1, 2)
   \<and> has_shape [[[Fin 0, Fin 0], [Fin 1, Fin 2]]] (1, 2, 2)
   \<and> tnorm [[[Fin 3, Fin 4]]] = Fin 5
   \<and> steering_vec [[[Fin 4, Fin 6]]] [[[Fin 0, Fin 0], [Fin 1, Fin 2]]]
       = Inr [[[Fin (3 / 5), Fin (4 / 5)]]]
   \<and> tnorm [[[Fin (3 / 5), Fin (4 / 5)]]] = Fin 1"
  using steering_vec_unit_norm[of "[[[Fin 4, Fin 6]]]" "[[[Fin 0, Fin 0], [Fin 1, Fin 2]]]"
      1 1 2 2 "[[[Fin 3, Fin 4]]]"]
  by (simp add: has_shape_def finite_tensor_def finite_vec_def tnorm_def vnorm_def fsum_def
      tdiv_def sqrt_25)

text \<open>
  Claim C6 as stated fails: for two identical activations the difference has norm zero,
  and the derivation returns a tensor (of \<open>NaN\<close>) instead of raising.
\<close>

theorem zero_norm_counterexample:
  "tsub (last_slice [[[Fin 1, Fin 2]]]) (last_slice [[[Fin 1, Fin 2]]]) = Inr [[[Fin 0, Fin 0]]]
   \<and> tnorm [[[Fin 0, Fin 0]]] = Fin 0
   \<and> steering_vec [[[Fin 1, Fin 2]]] [[[Fin 1, Fin 2]]] = Inr [[[NaN, NaN]]]"
  by (simp add: steering_vec_def tsub_def tbin_def bcast_def last_slice_def tdiv_def tnorm_def
      vnorm_def fsum_def fsub_def)

lemma vnorm_zero:
  assumes "vnorm (map Fin rs) = Fin 0"
  shows "map Fin rs = replicate (length rs) (Fin 0)"
proof -
  have nonneg: "0 \<le> (\<Sum>r\<leftarrow>rs. r * r)" by (rule sum_list_nonneg) auto
  from assms have "(\<Sum>r\<leftarrow>rs. r * r) = 0"
    by (simp add: vnorm_Fin)
  then have "\<forall>x\<in>set (map (\<lambda>r. r * r) rs). x = 0"
    by (subst (asm) sum_list_nonneg_eq_0_iff) auto
  then have "\<forall>r\<in>set rs. r = 0" by auto
  then show ?thesis by (induction rs) auto
qed


lemma map_const_replicate:
  "(\<And>x. x \<in> set xs \<Longrightarrow> f x = c) \<Longrightarrow> map f xs = replicate (length xs) c"
  by (induction xs) auto

lemma tnorm_zero_elements:
  assumes "finite_tensor d" and "tnorm d = Fin 0"
    and "m \<in> set d" and "r \<in> set m" and "x \<in> set r"
  shows "x = Fin 0"
proof -
  from finite_tensor_flat[OF assms(1)] obtain rs where rs: "concat (concat d) = map Fin rs"
    by (auto simp: finite_vec_conv)
  with assms(2) have "map Fin rs = replicate (length rs) (Fin 0)"
    by (intro vnorm_zero) (simp add: tnorm_def)
  then have "set (concat (concat d)) \<subseteq> {Fin 0}"
    by (metis rs set_replicate_conv_if empty_subsetI subset_refl)
  moreover have "x \<in> set (concat (concat d))"
    using assms(3,4,5) by auto
  ultimately show ?thesis by auto
qed

lemma tdiv_zero_norm:
  assumes "finite_tensor d" and "tnorm d = Fin 0" and "has_shape d (b, s, h)"
  shows "tdiv d (tnorm d) = replicate b (replicate s (replicate h NaN))"
proof -
  have row: "map (\<lambda>x. fdiv x (Fin 0)) r = replicate h NaN" if "m \<in> set d" "r \<in> set m" for m r
  proof -
    have "fdiv x (Fin 0) = NaN" if "x \<in> set r" for x
    proof -
      have "x = Fin 0" using assms(1,2) \<open>m \<in> set d\<close> \<open>r \<in> set m\<close> that
        by (rule tnorm_zero_elements)
      then show ?thesis by simp
    qed
    then have "map (\<lambda>x. fdiv x (Fin 0)) r = replicate (length r) NaN"
      by (rule map_const_replicate)
    with that assms(3) show ?thesis by (simp add: has_shapeD(3))
  qed
  have "map (map (\<lambda>x. fdiv x (Fin 0))) m = replicate s (replicate h NaN)" if "m \<in> set d" for m
  proof -
    have "map (map (\<lambda>x. fdiv x (Fin 0))) m = replicate (length m) (replicate h NaN)"
      using row[OF that] by (intro map_const_replicate)
    with that assms(3) show ?thesis by (simp add: has_shapeD(2))
  qed
  then have "map (map (map (\<lambda>x. fdiv x (Fin 0)))) d = replicate (length d) (replicate s (replicate h NaN))"
    by (intro map_const_replicate)
  with assms(2,3) show ?thesis by (simp add: tdiv_def has_shapeD(1))
qed

lemma has_shape_tdiv: "has_shape (tdiv t n) d = has_shape t d"
  by (cases d) (auto simp: has_shape_def tdiv_def list_all_iff)

text \<open>
  Claim C6, amended. When the difference of the two last-position slices has norm
  exactly zero, the derivation does not fail: the division is carried out and the
  result is the tensor of shape (batch, 1, hidden) whose every component is \<open>NaN\<close>.
\<close>

theorem steering_vec_zero_norm:
  assumes "finite_tensor act_love" and "finite_tensor act_hate"
    and "has_shape act_love (b, s1, h)" and "has_shape act_hate (b, s2, h)"
    and "0 < s1" and "0 < s2"
    and "d = map2 (\<lambda>m1 m2. [map2 fsub (last m1) (last m2)]) act_love act_hate"
    and "tnorm d = Fin 0"
  shows "steering_vec act_love act_hate = Inr (replicate b [replicate h NaN])"
proof -
  have "tsub (last_slice act_love) (last_slice act_hate) = Inr d"
    unfolding assms(7) using assms(3,4,5,6) by (rule tsub_last_slices)
  then have "steering_vec act_love act_hate = Inr (tdiv d (tnorm d))"
    by (simp add: steering_vec_def)
  moreover have "has_shape (tdiv d (tnorm d)) (b, 1, h)"
    unfolding assms(7) using assms(3,4,5,6) by (rule has_shape_last_diff)
  then have "has_shape d (b, 1, h)" by (simp only: has_shape_tdiv)
  moreover have "finite_tensor d"
    unfolding assms(7) using assms(1,2,3,4,5,6) by (rule finite_last_diff)
  ultimately show ?thesis
    using assms(8) tdiv_zero_norm[of d b 1 h] by simp
qed

text \<open>An instance of the amended C6: two identical activations.\<close>

theorem steering_vec_zero_norm_witness:
  "finite_tensor [[[Fin 1, Fin 2]]] \<and> has_shape [[[Fin 1, Fin 2]]] (1, 1, 2)
   \<and> tnorm [[[Fin 0, Fin 0]]] = Fin 0
   \<and> steering_vec [[[Fin 1, Fin 2]]] [[[Fin 1, Fin 2]]] = Inr [[[NaN, NaN]]]"
  using steering_vec_zero_norm[of "[[[Fin 1, Fin 2]]]" "[[[Fin 1, Fin 2]]]" 1 1 2 1
      "[[[Fin 0, Fin 0]]]"]
  by (simp add: has_shape_def finite_tensor_def finite_vec_def tnorm_def vnorm_def fsum_def
      numeral_2_eq_2)

lemma sequence_map_cong:
  assumes "\<And>x. x \<in> set xs \<Longrightarrow> f x = Inr (g x)"
  shows "sequence (map f xs) = Inr (map g xs)"
proof -
  have "map f xs = map (\<lambda>x. Inr (g x)) xs"
    using assms by (intro map_cong) auto
  then show ?thesis by (simp only: sequence_map_Inr)
qed

lemma hidden_dimD: "hidden_dim h t \<Longrightarrow> m \<in> set t \<Longrightarrow> r \<in> set m \<Longrightarrow> length r = h"
  by (auto simp: hidden_dim_def list_all_iff)

lemma has_shape_hidden_dim: "has_shape t (b, s, h) \<Longrightarrow> hidden_dim h t"
  by (auto simp: hidden_dim_def has_shape_def list_all_iff)

lemma tadd_single:
  assumes "hidden_dim (length v) t"
  shows "tadd t [[v]] = Inr (add_to_rows v t)"
proof -
  have row: "bcast (\<lambda>x y. Inr (fadd x y)) r v = Inr (map2 fadd r v)"
    if "m \<in> set t" "r \<in> set m" for m r
    using hidden_dimD[OF assms that] by (intro bcast_same) auto
  have "bcast (bcast (\<lambda>x y. Inr (fadd x y))) m [v] = Inr (map (\<lambda>r. map2 fadd r v) m)"
    if "m \<in> set t" for m
    unfolding bcast_single_right using row[OF that] by (rule sequence_map_cong)
  then have "sequence (map (\<lambda>m. bcast (bcast (\<lambda>x y. Inr (fadd x y))) m [v]) t)
      = Inr (map (map (\<lambda>r. map2 fadd r v)) t)"
    by (rule sequence_map_cong)
  then show ?thesis
    by (simp only: tadd_def tbin_def bcast_single_right add_to_rows_def)
qed

lemma has_shape_add_to_rows:
  "has_shape t (b, s, h) \<Longrightarrow> length v = h \<Longrightarrow> has_shape (add_to_rows v t) (b, s, h)"
  by (auto simp: has_shape_def add_to_rows_def list_all_iff)

lemma hidden_dim_add_to_rows:
  "hidden_dim h t \<Longrightarrow> length v = h \<Longrightarrow> hidden_dim h (add_to_rows v t)"
  by (auto simp: hidden_dim_def add_to_rows_def list_all_iff)

lemma fadd_zero_right [simp]: "fadd x (Fin 0) = x"
  by (cases x) auto

lemma map2_fadd_zeros: "length r = h \<Longrightarrow> map2 fadd r (replicate h (Fin 0)) = r"
proof (induction r arbitrary: h)
  case Nil
  then show ?case by simp
next
  case (Cons x r)
  then obtain k where "h = Suc k" by (cases h) auto
  with Cons show ?case by simp
qed

lemma add_to_rows_zeros:
  assumes "hidden_dim h t"
  shows "add_to_rows (replicate h (Fin 0)) t = t"
proof -
  have "map (\<lambda>r. map2 fadd r (replicate h (Fin 0))) m = m" if "m \<in> set t" for m
  proof -
    have "map (\<lambda>r. map2 fadd r (replicate h (Fin 0))) m = map (\<lambda>r. r) m"
      using hidden_dimD[OF assms that] by (intro map_cong) (auto simp: map2_fadd_zeros)
    then show ?thesis by simp
  qed
  then have "map (map (\<lambda>r. map2 fadd r (replicate h (Fin 0)))) t = map (\<lambda>m. m) t"
    by (intro map_cong) auto
  then show ?thesis by (simp add: add_to_rows_def)
qed

lemma tscale_single: "tscale c [[v]] = [[map (fmul (Fin c)) v]]"
  by (simp add: tscale_def)

lemma scale_zero_finite:
  assumes "finite_vec v"
  shows "map (fmul (Fin 0)) v = replicate (length v) (Fin 0)"
proof -
  from assms obtain rs where "v = map Fin rs" by (auto simp: finite_vec_conv)
  then show ?thesis by (simp add: comp_def map_replicate_const)
qed

section \<open>Facts about hooks\<close>

lemma module_call_no_hooks:
  "hooks w = [] \<Longrightarrow> module_call run raw w = (Inr raw, w\<lparr>evals := evals w @ [(raw, raw)]\<rparr>)"
  by (simp add: module_call_def)

lemma module_call_hooks [simp]: "hooks (snd (module_call run raw w)) = hooks w"
  by (simp add: module_call_def split: prod.splits sum.splits)

lemma module_call_act_add:
  assumes "hooks w = [(i, ActAdd [[v]])]" and "hidden_dim (length v) (fst raw)"
  shows "module_call run_hook raw w
           = (Inr (add_to_rows v (fst raw), snd raw),
              w\<lparr>evals := evals w @ [(raw, (add_to_rows v (fst raw), snd raw))]\<rparr>)"
  using assms by (simp add: module_call_def act_add_def tadd_single)

lemma module_call_hook_add:
  assumes "hooks w = [(i, HookAdd [[v]])]" and "hidden_dim (length v) raw"
  shows "module_call run_bare_hook raw w
           = (Inr (add_to_rows v raw), w\<lparr>evals := evals w @ [(raw, add_to_rows v raw)]\<rparr>)"
  using assms by (simp add: module_call_def act_add_bare_def tadd_single)

lemma module_call_trace_add:
  assumes "hooks w = [(i, Trace (Some [[v]]))]" and "hidden_dim (length v) raw"
  shows "module_call run_bare_hook raw w
           = (Inr (add_to_rows v raw),
              w\<lparr>captured := Some (add_to_rows v raw), evals := evals w @ [(raw, add_to_rows v raw)]\<rparr>)"
  using assms by (simp add: module_call_def act_add_bare_def tadd_single)

lemma run_hooks_append_cache:
  "run_hooks run_hook (hs @ [(i, CacheHook)]) out c =
     (case run_hooks run_hook hs out c of
        (Inl e, c') \<Rightarrow> (Inl e, c')
      | (Inr out', c') \<Rightarrow> (Inr out', c' @ [fst out']))"
proof (induction hs arbitrary: out c)
  case Nil
  show ?case by (simp add: cache_hook_def)
next
  case (Cons ih hs)
  show ?case
    by (simp add: Cons.IH split: prod.splits sum.splits option.splits)
qed

lemma run_hooks_append_trace:
  "run_hooks run_bare_hook (hs @ [(i, Trace None)]) out c =
     (case run_hooks run_bare_hook hs out c of
        (Inl e, c') \<Rightarrow> (Inl e, c')
      | (Inr out', c') \<Rightarrow> (Inr out', Some out'))"
proof (induction hs arbitrary: out c)
  case Nil
  show ?case by simp
next
  case (Cons ih hs)
  show ?case
    by (simp add: Cons.IH split: prod.splits sum.splits option.splits)
qed

lemma register_hooks:
  "hooks (snd (register_forward_hook h w)) = hooks w @ [(next_id w, h)]"
  "captured (snd (register_forward_hook h w)) = captured w"
  "evals (snd (register_forward_hook h w)) = evals w"
  "fst (register_forward_hook h w) = next_id w"
  by (simp_all add: register_forward_hook_def)

text \<open>
  Claim C8. A capture callback does not change what the interception point passes on:
  with \<open>cache_hook\<close> registered after whatever hooks the module already has, the value
  passed on is the one passed on without it, and the callback appends the first entry
  of that value to \<open>cache\<close>; on a module with no other hook the value is the one the
  module computed. The same holds for a \<open>Trace\<close> without \<open>edit_output\<close>, which
  retains the value as \<open>cache.output\<close>.
\<close>

theorem capture_is_observational:
  fixes w :: "(hook, tensor list, 'x block_out) hooked"
    and u :: "(bare_hook, tensor option, tensor) hooked"
  shows
    "fst (module_call run_hook raw (snd (register_forward_hook CacheHook w)))
       = fst (module_call run_hook raw w)
     \<and> (\<forall>out. fst (module_call run_hook raw w) = Inr out \<longrightarrow>
          captured (snd (module_call run_hook raw (snd (register_forward_hook CacheHook w))))
            = captured (snd (module_call run_hook raw w)) @ [fst out])
     \<and> (hooks w = [] \<longrightarrow> fst (module_call run_hook raw w) = Inr raw)
     \<and> fst (module_call run_bare_hook x (snd (register_forward_hook (Trace None) u)))
         = fst (module_call run_bare_hook x u)
     \<and> (\<forall>out. fst (module_call run_bare_hook x u) = Inr out \<longrightarrow>
          captured (snd (module_call run_bare_hook x (snd (register_forward_hook (Trace None) u))))
            = Some out)
     \<and> (hooks u = [] \<longrightarrow> fst (module_call run_bare_hook x u) = Inr x)"
  by (auto simp: module_call_def register_hooks run_hooks_append_cache run_hooks_append_trace
      split: prod.splits sum.splits)

text \<open>An instance of C8: one evaluation with each capture callback.\<close>

theorem capture_is_observational_witness:
  "hooks \<lparr>hooks = [], next_id = 0, captured = [], evals = []\<rparr> = ([] :: (nat \<times> hook) list)
   \<and> fst (module_call run_hook ([[[Fin 1, Fin 2]]], [7 :: nat])
        \<lparr>hooks = [], next_id = 0, captured = [], evals = []\<rparr>)
       = Inr ([[[Fin 1, Fin 2]]], [7])
   \<and> fst (module_call run_hook ([[[Fin 1, Fin 2]]], [7 :: nat])
        (snd (register_forward_hook CacheHook \<lparr>hooks = [], next_id = 0, captured = [], evals = []\<rparr>)))
       = Inr ([[[Fin 1, Fin 2]]], [7])
   \<and> captured (snd (module_call run_hook ([[[Fin 1, Fin 2]]], [7 :: nat])
        (snd (register_forward_hook CacheHook \<lparr>hooks = [], next_id = 0, captured = [], evals = []\<rparr>))))
       = [[[[Fin 1, Fin 2]]]]
   \<and> fst (module_call run_bare_hook [[[Fin 1, Fin 2]]]
        (snd (register_forward_hook (Trace None)
           \<lparr>hooks = [], next_id = 0, captured = None, evals = []\<rparr>)))
       = Inr [[[Fin 1, Fin 2]]]
   \<and> captured (snd (module_call run_bare_hook [[[Fin 1, Fin 2]]]
        (snd (register_forward_hook (Trace None)
           \<lparr>hooks = [], next_id = 0, captured = None, evals = []\<rparr>))))
       = Some [[[Fin 1, Fin 2]]]"
  using capture_is_observational[of "([[[Fin 1, Fin 2]]], [7 :: nat])"
      "\<lparr>hooks = [], next_id = 0, captured = [], evals = []\<rparr>"
      "[[[Fin 1, Fin 2]]]" "\<lparr>hooks = [], next_id = 0, captured = None, evals = []\<rparr>"]
  by (simp add: module_call_def)

text \<open>
  Claim C7. On a tuple output the injection changes the first entry only: when it returns,
  the remainder of the tuple is the original one and the first entry is the sum of the
  original first entry and the vector. For a vector of shape (1, 1, hidden) scaled by a
  coefficient, the first entry keeps its shape and every position has the scaled vector
  added. The hook of pytorch_hooks.ipynb and the wrapper of custom_wrapper.ipynb both
  return this value.
\<close>

theorem act_add_keeps_remainder:
  fixes out :: "'x block_out"
  shows
    "(\<forall>out'. act_add sv out = Inr out' \<longrightarrow> snd out' = snd out \<and> tadd (fst out) sv = Inr (fst out'))
     \<and> (has_shape (fst out) (b, s, h) \<and> length v = h \<longrightarrow>
          act_add (tscale c [[v]]) out
            = Inr (add_to_rows (map (fmul (Fin c)) v) (fst out), snd out)
          \<and> has_shape (add_to_rows (map (fmul (Fin c)) v) (fst out)) (b, s, h))
     \<and> run_hook (ActAdd sv) out cache
         = (case act_add sv out of Inl e \<Rightarrow> (Inl e, cache) | Inr out' \<Rightarrow> (Inr (Some out'), cache))
     \<and> layer_forward (WrappedModule (Block f) kept (Some sv)) ids
         = (act_add sv (f ids), WrappedModule (Block f) (Some (f ids)) (Some sv))"
proof -
  have "snd out' = snd out \<and> tadd (fst out) sv = Inr (fst out')" if "act_add sv out = Inr out'" for out'
    using that by (auto simp: act_add_def split: sum.splits)
  moreover have "act_add (tscale c [[v]]) out
            = Inr (add_to_rows (map (fmul (Fin c)) v) (fst out), snd out)
          \<and> has_shape (add_to_rows (map (fmul (Fin c)) v) (fst out)) (b, s, h)"
    if "has_shape (fst out) (b, s, h)" "length v = h"
  proof -
    have "hidden_dim (length (map (fmul (Fin c)) v)) (fst out)"
      using that by (simp add: has_shape_hidden_dim)
    then have "tadd (fst out) [[map (fmul (Fin c)) v]] = Inr (add_to_rows (map (fmul (Fin c)) v) (fst out))"
      by (rule tadd_single)
    then show ?thesis
      using that by (simp add: act_add_def tscale_single has_shape_add_to_rows)
  qed
  ultimately show ?thesis by simp
qed

text \<open>An instance of C7: coefficient 10 on an activation of two positions.\<close>

theorem act_add_keeps_remainder_witness:
  "has_shape [[[Fin 1, Fin 2], [Fin 3, Fin 4]]] (1, 2, 2)
   \<and> act_add (tscale 10 [[[Fin 1, Fin 0]]]) ([[[Fin 1, Fin 2], [Fin 3, Fin 4]]], [5 :: nat, 6])
       = Inr ([[[Fin 11, Fin 2], [Fin 13, Fin 4]]], [5, 6])
   \<and> has_shape [[[Fin 11, Fin 2], [Fin 13, Fin 4]]] (1, 2, 2)"
  using act_add_keeps_remainder[of "tscale 10 [[[Fin 1, Fin 0]]]"
      "([[[Fin 1, Fin 2], [Fin 3, Fin 4]]], [5 :: nat, 6])" 1 2 2 "[Fin 1, Fin 0]" 10]
  by (simp add: has_shape_def add_to_rows_def)

section \<open>Facts about generation\<close>

lemma generate_extends:
  "generate fwd eos n ids s = (Inr ids', s') \<Longrightarrow> \<exists>new. ids' = ids @ new \<and> length new \<le> n"
proof (induction n arbitrary: ids s)
  case 0
  then show ?case by simp
next
  case (Suc n)
  obtain r s1 where f: "fwd ids s = (r, s1)" by (cases "fwd ids s")
  show ?case
  proof (cases r)
    case (Inl e)
    with Suc.prems f show ?thesis by simp
  next
    case (Inr tok)
    show ?thesis
    proof (cases "tok = eos")
      case True
      with Suc.prems f Inr show ?thesis by auto
    next
      case False
      with Suc.prems f Inr have "generate fwd eos n (ids @ [tok]) s1 = (Inr ids', s')" by simp
      from Suc.IH[OF this] obtain new where "ids' = (ids @ [tok]) @ new" "length new \<le> n" by blast
      then have "ids' = ids @ (tok # new) \<and> length (tok # new) \<le> Suc n" by simp
      then show ?thesis by blast
    qed
  qed
qed

lemma contexts_same [simp]: "contexts ids ids = []"
  by (simp add: contexts_def)

lemma contexts_step:
  "contexts ids (ids @ tok # new) = ids # contexts (ids @ [tok]) (ids @ tok # new)"
proof -
  have "[length ids..<length (ids @ tok # new)]
          = length ids # [Suc (length ids)..<length (ids @ tok # new)]"
    by (rule upt_conv_Cons) simp
  then have "contexts ids (ids @ tok # new)
          = take (length ids) (ids @ tok # new) # contexts (ids @ [tok]) (ids @ tok # new)"
    by (simp only: contexts_def list.map length_append list.size) simp
  then show ?thesis by simp
qed

text \<open>
  Two forward functions that step related states to related states with the same
  result generate the same tokens.
\<close>

lemma generate_sim:
  assumes step: "\<And>ids s t. R s t \<Longrightarrow>
      fst (fwd1 ids s) = fst (fwd2 ids t) \<and> R (snd (fwd1 ids s)) (snd (fwd2 ids t))"
    and "R s t"
  shows "fst (generate fwd1 eos n ids s) = fst (generate fwd2 eos n ids t)
         \<and> R (snd (generate fwd1 eos n ids s)) (snd (generate fwd2 eos n ids t))"
  using assms(2)
proof (induction n arbitrary: ids s t)
  case 0
  then show ?case by simp
next
  case (Suc n)
  obtain r1 s1 where f1: "fwd1 ids s = (r1, s1)" by (cases "fwd1 ids s")
  obtain r2 t1 where f2: "fwd2 ids t = (r2, t1)" by (cases "fwd2 ids t")
  from step[OF Suc.prems, of ids] f1 f2 have eq: "r2 = r1" and rel: "R s1 t1" by simp_all
  show ?case
  proof (cases r1)
    case (Inl e)
    with f1 f2 eq rel show ?thesis by simp
  next
    case (Inr tok)
    with f1 f2 eq rel Suc.IH[OF rel, of "ids @ [tok]"] show ?thesis by simp
  qed
qed

text \<open>
  When every evaluation of the hooked point passes on \<open>st\<close> of what the point computed
  and changes nothing but the log, a generation adds one log entry per forward pass,
  in order, whether it returns or raises; when it returns, the forward passes ran on
  the contexts of the returned sequence.
\<close>

lemma generate_evals:
  assumes call: "\<And>c w. hooks w = H \<Longrightarrow>
      module_call run (point c) w = (Inr (st (point c)), w\<lparr>evals := evals w @ [(point c, st (point c))]\<rparr>)"
    and "hooks w = H"
    and "generate (forward (hooked_point run point) rest) eos n ids w = (r, w')"
  shows "\<exists>ctxs. w' = w\<lparr>evals := evals w @ map (\<lambda>c. (point c, st (point c))) ctxs\<rparr>
           \<and> (\<forall>ids'. r = Inr ids' \<longrightarrow> ctxs = contexts ids ids')"
  using assms(2,3)
proof (induction n arbitrary: ids w)
  case 0
  then have "w' = w\<lparr>evals := evals w @ map (\<lambda>c. (point c, st (point c))) []\<rparr>
      \<and> (\<forall>ids'. r = Inr ids' \<longrightarrow> [] = contexts ids ids')"
    by auto
  then show ?case by (rule exI)
next
  case (Suc n)
  let ?w1 = "w\<lparr>evals := evals w @ [(point ids, st (point ids))]\<rparr>"
  have f: "forward (hooked_point run point) rest ids w = (rest ids (st (point ids)), ?w1)"
    by (simp add: forward_def hooked_point_def call[OF Suc.prems(1)])
  have h1: "hooks ?w1 = H" using Suc.prems(1) by simp
  have one: "w' = w\<lparr>evals := evals w @ map (\<lambda>c. (point c, st (point c))) [ids]\<rparr>" if "w' = ?w1"
    using that by simp
  show ?case
  proof (cases "rest ids (st (point ids))")
    case (Inl e)
    with Suc.prems(2) f have "w' = ?w1" "r = Inl e" by simp_all
    then have "w' = w\<lparr>evals := evals w @ map (\<lambda>c. (point c, st (point c))) [ids]\<rparr>
        \<and> (\<forall>ids'. r = Inr ids' \<longrightarrow> [ids] = contexts ids ids')"
      by simp
    then show ?thesis by (rule exI)
  next
    case (Inr tok)
    show ?thesis
    proof (cases "tok = eos")
      case True
      with Suc.prems(2) f Inr have "r = Inr (ids @ [tok])" "w' = ?w1" by simp_all
      then have "w' = w\<lparr>evals := evals w @ map (\<lambda>c. (point c, st (point c))) [ids]\<rparr>
          \<and> (\<forall>ids'. r = Inr ids' \<longrightarrow> [ids] = contexts ids ids')"
        by (simp add: contexts_step[of ids tok "[]", simplified])
      then show ?thesis by (rule exI)
    next
      case False
      with Suc.prems(2) f Inr
      have g: "generate (forward (hooked_point run point) rest) eos n (ids @ [tok]) ?w1 = (r, w')"
        by simp
      from Suc.IH[OF h1 g] obtain ctxs where
        w': "w' = ?w1\<lparr>evals := evals ?w1 @ map (\<lambda>c. (point c, st (point c))) ctxs\<rparr>"
        and c: "\<And>ids'. r = Inr ids' \<Longrightarrow> ctxs = contexts (ids @ [tok]) ids'"
        by blast
      have "ids # ctxs = contexts ids ids'" if "r = Inr ids'" for ids'
      proof -
        from g that generate_extends[of _ eos n "ids @ [tok]" ?w1 ids' w']
        obtain new where "ids' = ids @ tok # new" by auto
        with c[OF that] show ?thesis by (simp add: contexts_step)
      qed
      with w' have "w' = w\<lparr>evals := evals w @ map (\<lambda>c. (point c, st (point c))) (ids # ctxs)\<rparr>
          \<and> (\<forall>ids'. r = Inr ids' \<longrightarrow> ids # ctxs = contexts ids ids')"
        by simp
      then show ?thesis by (rule exI)
    qed
  qed
qed

lemma generate_hooks:
  "hooks (snd (generate (forward (hooked_point run point) rest) eos n ids w)) = hooks w"
proof (induction n arbitrary: ids w)
  case 0
  show ?case by simp
next
  case (Suc n)
  obtain r w1 where f: "forward (hooked_point run point) rest ids w = (r, w1)"
    by (cases "forward (hooked_point run point) rest ids w")
  then have h: "hooks w1 = hooks w"
    by (auto simp: forward_def hooked_point_def split: prod.splits sum.splits
        dest: arg_cong[where f="\<lambda>p. hooks (snd p)"])
  show ?case
    using f h Suc.IH by (cases r) simp_all
qed

lemma forward_no_hooks:
  "hooks w = [] \<Longrightarrow> forward (hooked_point run point) rest ids w
     = (rest ids (point ids), w\<lparr>evals := evals w @ [(point ids, point ids)]\<rparr>)"
  by (simp add: forward_def hooked_point_def module_call_no_hooks)

text \<open>
  Claim C1. While \<open>act_add(coeff * v)\<close> is registered on the interception point, every
  forward pass hands to the rest of the model the output of the point with \<open>coeff * v\<close>
  added, and leaves the hook registered. So the tokens of a generation are those of
  the model whose point returns the steered output at every pass, and the log of the
  module gains one entry per forward pass, in the order of the passes, each pairing
  what the point computed with the steered value that was passed on; when the
  generation returns, the passes are those on the tokens so far, one per generated
  token. This holds for the forward hook of pytorch_hooks.ipynb and for \<open>add_hook\<close> of
  transformer_lens.ipynb.
\<close>

theorem injection_on_every_forward:
  fixes w0 :: "(hook, tensor list, 'x block_out) hooked"
    and u0 :: "(bare_hook, tensor option, tensor) hooked"
  shows
    "(hooks w0 = [] \<and> (\<forall>ctx. hidden_dim (length v) (fst (point ctx)))
        \<and> w = snd (register_forward_hook (ActAdd (tscale c [[v]])) w0)
        \<and> st = (\<lambda>out. (add_to_rows (map (fmul (Fin c)) v) (fst out), snd out))
      \<longrightarrow> (\<forall>ctx w1. hooks w1 = hooks w \<longrightarrow>
             forward (hooked_point run_hook point) rest ctx w1
               = (rest ctx (st (point ctx)), w1\<lparr>evals := evals w1 @ [(point ctx, st (point ctx))]\<rparr>))
          \<and> fst (generate (forward (hooked_point run_hook point) rest) eos n ids w)
              = fst (generate (forward (hooked_point run_hook (\<lambda>ctx. st (point ctx))) rest)
                      eos n ids w0)
          \<and> (\<forall>r w'. generate (forward (hooked_point run_hook point) rest) eos n ids w = (r, w') \<longrightarrow>
               (\<exists>ctxs. w' = w\<lparr>evals := evals w @ map (\<lambda>ctx. (point ctx, st (point ctx))) ctxs\<rparr>
                  \<and> (\<forall>ids'. r = Inr ids' \<longrightarrow>
                        ctxs = contexts ids ids' \<and> length ctxs = length ids' - length ids))))
     \<and> (hooks u0 = [] \<and> (\<forall>ctx. hidden_dim (length v) (bpoint ctx))
        \<and> u = add_hook (HookAdd (tscale c [[v]])) u0
        \<and> bst = add_to_rows (map (fmul (Fin c)) v)
      \<longrightarrow> (\<forall>ctx u1. hooks u1 = hooks u \<longrightarrow>
             forward (hooked_point run_bare_hook bpoint) brest ctx u1
               = (brest ctx (bst (bpoint ctx)),
                  u1\<lparr>evals := evals u1 @ [(bpoint ctx, bst (bpoint ctx))]\<rparr>))
          \<and> fst (generate (forward (hooked_point run_bare_hook bpoint) brest) eos n ids u)
              = fst (generate (forward (hooked_point run_bare_hook (\<lambda>ctx. bst (bpoint ctx))) brest)
                      eos n ids u0)
          \<and> (\<forall>br u'. generate (forward (hooked_point run_bare_hook bpoint) brest) eos n ids u = (br, u') \<longrightarrow>
               (\<exists>ctxs. u' = u\<lparr>evals := evals u @ map (\<lambda>ctx. (bpoint ctx, bst (bpoint ctx))) ctxs\<rparr>
                  \<and> (\<forall>ids'. br = Inr ids' \<longrightarrow>
                        ctxs = contexts ids ids' \<and> length ctxs = length ids' - length ids))))"
proof (intro conjI impI)
  assume a: "hooks w0 = [] \<and> (\<forall>ctx. hidden_dim (length v) (fst (point ctx)))
        \<and> w = snd (register_forward_hook (ActAdd (tscale c [[v]])) w0)
        \<and> st = (\<lambda>out. (add_to_rows (map (fmul (Fin c)) v) (fst out), snd out))"
  let ?v = "map (fmul (Fin c)) v"
  let ?H = "[(next_id w0, ActAdd [[?v]])]"
  let ?F = "forward (hooked_point run_hook point) rest"
  let ?G = "forward (hooked_point run_hook (\<lambda>ctx. st (point ctx))) rest"
  from a have h: "hooks w = ?H" and h0: "hooks w0 = []"
    by (simp_all add: register_hooks tscale_single)
  from a have st: "st out = (add_to_rows ?v (fst out), snd out)" for out by simp
  have call: "module_call run_hook (point ctx) w1
      = (Inr (st (point ctx)), w1\<lparr>evals := evals w1 @ [(point ctx, st (point ctx))]\<rparr>)"
    if "hooks w1 = ?H" for ctx and w1 :: "(hook, tensor list, 'x block_out) hooked"
    using a by (simp add: module_call_act_add[OF that] st)
  have fwd: "?F ctx w1 = (rest ctx (st (point ctx)), w1\<lparr>evals := evals w1 @ [(point ctx, st (point ctx))]\<rparr>)"
    if "hooks w1 = ?H" for ctx and w1 :: "(hook, tensor list, 'x block_out) hooked"
    by (simp add: forward_def hooked_point_def call[OF that])
  show "\<forall>ctx w1. hooks w1 = hooks w \<longrightarrow>
      ?F ctx w1 = (rest ctx (st (point ctx)), w1\<lparr>evals := evals w1 @ [(point ctx, st (point ctx))]\<rparr>)"
    using fwd by (simp add: h)
  have "fst (generate ?F eos n ids w) = fst (generate ?G eos n ids w0)
      \<and> (\<lambda>s t. hooks s = ?H \<and> hooks t = []) (snd (generate ?F eos n ids w)) (snd (generate ?G eos n ids w0))"
    by (rule generate_sim) (simp_all add: fwd forward_no_hooks h h0)
  then show "fst (generate ?F eos n ids w) = fst (generate ?G eos n ids w0)" by simp
  show "\<forall>r w'. generate ?F eos n ids w = (r, w') \<longrightarrow>
      (\<exists>ctxs. w' = w\<lparr>evals := evals w @ map (\<lambda>ctx. (point ctx, st (point ctx))) ctxs\<rparr>
         \<and> (\<forall>ids'. r = Inr ids' \<longrightarrow>
               ctxs = contexts ids ids' \<and> length ctxs = length ids' - length ids))"
  proof (intro allI impI)
    fix r w' assume g: "generate ?F eos n ids w = (r, w')"
    from generate_evals[of ?H run_hook point st w rest eos n ids r w', OF call h g]
    obtain ctxs where
      "w' = w\<lparr>evals := evals w @ map (\<lambda>ctx. (point ctx, st (point ctx))) ctxs\<rparr>"
      and "\<And>ids'. r = Inr ids' \<Longrightarrow> ctxs = contexts ids ids'"
      by auto
    then have "w' = w\<lparr>evals := evals w @ map (\<lambda>ctx. (point ctx, st (point ctx))) ctxs\<rparr>
        \<and> (\<forall>ids'. r = Inr ids' \<longrightarrow>
               ctxs = contexts ids ids' \<and> length ctxs = length ids' - length ids)"
      by (auto simp: contexts_def)
    then show "\<exists>ctxs. w' = w\<lparr>evals := evals w @ map (\<lambda>ctx. (point ctx, st (point ctx))) ctxs\<rparr>
        \<and> (\<forall>ids'. r = Inr ids' \<longrightarrow>
               ctxs = contexts ids ids' \<and> length ctxs = length ids' - length ids)"
      by (rule exI)
  qed
next
  assume a: "hooks u0 = [] \<and> (\<forall>ctx. hidden_dim (length v) (bpoint ctx))
        \<and> u = add_hook (HookAdd (tscale c [[v]])) u0
        \<and> bst = add_to_rows (map (fmul (Fin c)) v)"
  let ?v = "map (fmul (Fin c)) v"
  let ?H = "[(next_id u0, HookAdd [[?v]])]"
  let ?F = "forward (hooked_point run_bare_hook bpoint) brest"
  let ?G = "forward (hooked_point run_bare_hook (\<lambda>ctx. bst (bpoint ctx))) brest"
  from a have h: "hooks u = ?H" and h0: "hooks u0 = []"
    by (simp_all add: add_hook_def register_hooks tscale_single)
  from a have st: "bst out = add_to_rows ?v out" for out by simp
  have call: "module_call run_bare_hook (bpoint ctx) u1
      = (Inr (bst (bpoint ctx)), u1\<lparr>evals := evals u1 @ [(bpoint ctx, bst (bpoint ctx))]\<rparr>)"
    if "hooks u1 = ?H" for ctx and u1 :: "(bare_hook, tensor option, tensor) hooked"
    using a by (simp add: module_call_hook_add[OF that] st)
  have fwd: "?F ctx u1 = (brest ctx (bst (bpoint ctx)),
        u1\<lparr>evals := evals u1 @ [(bpoint ctx, bst (bpoint ctx))]\<rparr>)"
    if "hooks u1 = ?H" for ctx and u1 :: "(bare_hook, tensor option, tensor) hooked"
    by (simp add: forward_def hooked_point_def call[OF that])
  show "\<forall>ctx u1. hooks u1 = hooks u \<longrightarrow>
      ?F ctx u1 = (brest ctx (bst (bpoint ctx)),
        u1\<lparr>evals := evals u1 @ [(bpoint ctx, bst (bpoint ctx))]\<rparr>)"
    using fwd by (simp add: h)
  have "fst (generate ?F eos n ids u) = fst (generate ?G eos n ids u0)
      \<and> (\<lambda>s t. hooks s = ?H \<and> hooks t = []) (snd (generate ?F eos n ids u)) (snd (generate ?G eos n ids u0))"
    by (rule generate_sim) (simp_all add: fwd forward_no_hooks h h0)
  then show "fst (generate ?F eos n ids u) = fst (generate ?G eos n ids u0)" by simp
  show "\<forall>br u'. generate ?F eos n ids u = (br, u') \<longrightarrow>
      (\<exists>ctxs. u' = u\<lparr>evals := evals u @ map (\<lambda>ctx. (bpoint ctx, bst (bpoint ctx))) ctxs\<rparr>
         \<and> (\<forall>ids'. br = Inr ids' \<longrightarrow>
               ctxs = contexts ids ids' \<and> length ctxs = length ids' - length ids))"
  proof (intro allI impI)
    fix br u' assume g: "generate ?F eos n ids u = (br, u')"
    from generate_evals[of ?H run_bare_hook bpoint bst u brest eos n ids br u', OF call h g]
    obtain ctxs where
      "u' = u\<lparr>evals := evals u @ map (\<lambda>ctx. (bpoint ctx, bst (bpoint ctx))) ctxs\<rparr>"
      and "\<And>ids'. br = Inr ids' \<Longrightarrow> ctxs = contexts ids ids'"
      by auto
    then have "u' = u\<lparr>evals := evals u @ map (\<lambda>ctx. (bpoint ctx, bst (bpoint ctx))) ctxs\<rparr>
        \<and> (\<forall>ids'. br = Inr ids' \<longrightarrow>
               ctxs = contexts ids ids' \<and> length ctxs = length ids' - length ids)"
      by (auto simp: contexts_def)
    then show "\<exists>ctxs. u' = u\<lparr>evals := evals u @ map (\<lambda>ctx. (bpoint ctx, bst (bpoint ctx))) ctxs\<rparr>
        \<and> (\<forall>ids'. br = Inr ids' \<longrightarrow>
               ctxs = contexts ids ids' \<and> length ctxs = length ids' - length ids)"
      by (rule exI)
  qed
qed

text \<open>
  An instance of C1: two new tokens from two steered evaluations; the rest of the model
  answers 6 to a steered activation and 5 to an unsteered one, and the model without
  the hook generates 5 twice.
\<close>

theorem injection_on_every_forward_witness:
  "generate (forward (hooked_point run_hook (\<lambda>ctx. ([[[Fin (real (length ctx)), Fin 0]]], [] :: nat list)))
        (\<lambda>ctx out. if fst out = [[[Fin (real (length ctx)), Fin 0]]] then Inr 5 else Inr 6)) 0 2 [1]
      (snd (register_forward_hook (ActAdd (tscale 10 [[[Fin 1, Fin 2]]]))
         \<lparr>hooks = [], next_id = 0, captured = [], evals = []\<rparr>))
     = (Inr [1, 6, 6],
        \<lparr>hooks = [(0, ActAdd [[[Fin 10, Fin 20]]])], next_id = 1, captured = [],
         evals = [(([[[Fin 1, Fin 0]]], []), ([[[Fin 11, Fin 20]]], [])),
                  (([[[Fin 2, Fin 0]]], []), ([[[Fin 12, Fin 20]]], []))]\<rparr>)
   \<and> fst (generate (forward (hooked_point run_hook (\<lambda>ctx. ([[[Fin (real (length ctx)), Fin 0]]], [] :: nat list)))
        (\<lambda>ctx out. if fst out = [[[Fin (real (length ctx)), Fin 0]]] then Inr 5 else Inr 6)) 0 2 [1]
        \<lparr>hooks = [], next_id = 0, captured = [], evals = []\<rparr>)
     = Inr [1, 5, 5]
   \<and> contexts [1] [1, 6, 6] = [[1], [1, 6]]
   \<and> generate (forward (hooked_point run_bare_hook (\<lambda>ctx. [[[Fin (real (length ctx)), Fin 0]]]))
        (\<lambda>ctx out. if out = [[[Fin (real (length ctx)), Fin 0]]] then Inr 5 else Inr 6)) 0 2 [1]
      (add_hook (HookAdd (tscale 10 [[[Fin 1, Fin 2]]]))
         \<lparr>hooks = [], next_id = 0, captured = None, evals = []\<rparr>)
     = (Inr [1, 6, 6],
        \<lparr>hooks = [(0, HookAdd [[[Fin 10, Fin 20]]])], next_id = 1, captured = None,
         evals = [([[[Fin 1, Fin 0]]], [[[Fin 11, Fin 20]]]),
                  ([[[Fin 2, Fin 0]]], [[[Fin 12, Fin 20]]])]\<rparr>)
   \<and> fst (generate (forward (hooked_point run_bare_hook (\<lambda>ctx. [[[Fin (real (length ctx)), Fin 0]]]))
        (\<lambda>ctx out. if out = [[[Fin (real (length ctx)), Fin 0]]] then Inr 5 else Inr 6)) 0 2 [1]
        \<lparr>hooks = [], next_id = 0, captured = None, evals = []\<rparr>)
     = Inr [1, 5, 5]"
proof -
  let ?winit = "\<lparr>hooks = [], next_id = 0, captured = [], evals = []\<rparr> :: (hook, tensor list, nat block_out) hooked"
  let ?uinit = "\<lparr>hooks = [], next_id = 0, captured = None, evals = []\<rparr> :: (bare_hook, tensor option, tensor) hooked"
  let ?point = "\<lambda>ctx :: nat list. ([[[Fin (real (length ctx)), Fin 0]]], [] :: nat list)"
  let ?rest = "\<lambda>(ctx :: nat list) (out :: nat block_out).
      if fst out = [[[Fin (real (length ctx)), Fin 0]]] then Inr 5 else Inr 6 :: error + nat"
  let ?bpoint = "\<lambda>ctx :: nat list. [[[Fin (real (length ctx)), Fin 0]]]"
  let ?brest = "\<lambda>(ctx :: nat list) (out :: tensor).
      if out = [[[Fin (real (length ctx)), Fin 0]]] then Inr 5 else Inr 6 :: error + nat"
  let ?whook = "snd (register_forward_hook (ActAdd (tscale 10 [[[Fin 1, Fin 2]]])) ?winit)"
  let ?uhook = "add_hook (HookAdd (tscale 10 [[[Fin 1, Fin 2]]])) ?uinit"
  let ?st = "\<lambda>out :: nat block_out. (add_to_rows (map (fmul (Fin 10)) [Fin 1, Fin 2]) (fst out), snd out)"
  let ?bst = "add_to_rows (map (fmul (Fin 10)) [Fin 1, Fin 2])"
  note inst = injection_on_every_forward[where ?w0.0 = ?winit and v = "[Fin 1, Fin 2]" and c = 10
      and point = ?point and rest = ?rest and eos = 0 and n = 2 and ids = "[1]" and w = ?whook
      and st = ?st and ?u0.0 = ?uinit and bpoint = ?bpoint and brest = ?brest and u = ?uhook
      and bst = ?bst]
  have hyp1: "hooks ?winit = [] \<and> (\<forall>ctx. hidden_dim (length [Fin 1, Fin 2]) (fst (?point ctx)))
      \<and> ?whook = snd (register_forward_hook (ActAdd (tscale 10 [[[Fin 1, Fin 2]]])) ?winit) \<and> ?st = ?st"
    by (simp add: hidden_dim_def)
  have hyp2: "hooks ?uinit = [] \<and> (\<forall>ctx. hidden_dim (length [Fin 1, Fin 2]) (?bpoint ctx))
      \<and> ?uhook = add_hook (HookAdd (tscale 10 [[[Fin 1, Fin 2]]])) ?uinit \<and> ?bst = ?bst"
    by (simp add: hidden_dim_def)
  from inst[THEN conjunct1, THEN mp, OF hyp1]
  have t1: "fst (generate (forward (hooked_point run_hook ?point) ?rest) 0 2 [1] ?whook)
      = fst (generate (forward (hooked_point run_hook (\<lambda>ctx. ?st (?point ctx))) ?rest) 0 2 [1] ?winit)"
    by (elim conjE)
  from inst[THEN conjunct2, THEN mp, OF hyp2]
  have t2: "fst (generate (forward (hooked_point run_bare_hook ?bpoint) ?brest) 0 2 [1] ?uhook)
      = fst (generate (forward (hooked_point run_bare_hook (\<lambda>ctx. ?bst (?bpoint ctx))) ?brest) 0 2 [1] ?uinit)"
    by (elim conjE)
  have s1: "fst (generate (forward (hooked_point run_hook (\<lambda>ctx. ?st (?point ctx))) ?rest) 0 2 [1] ?winit)
      = Inr [1, 6, 6]"
    by (simp add: numeral_2_eq_2 forward_def hooked_point_def module_call_def add_to_rows_def)
  have s2: "fst (generate (forward (hooked_point run_bare_hook (\<lambda>ctx. ?bst (?bpoint ctx))) ?brest) 0 2 [1] ?uinit)
      = Inr [1, 6, 6]"
    by (simp add: numeral_2_eq_2 forward_def hooked_point_def module_call_def add_to_rows_def)
  have e1: "snd (generate (forward (hooked_point run_hook ?point) ?rest) 0 2 [1] ?whook)
      = \<lparr>hooks = [(0, ActAdd [[[Fin 10, Fin 20]]])], next_id = 1, captured = [],
         evals = [(([[[Fin 1, Fin 0]]], []), ([[[Fin 11, Fin 20]]], [])),
                  (([[[Fin 2, Fin 0]]], []), ([[[Fin 12, Fin 20]]], []))]\<rparr>"
    by (simp add: numeral_2_eq_2 forward_def hooked_point_def module_call_def
        register_forward_hook_def act_add_def tadd_def tbin_def bcast_def tscale_def)
  have e2: "snd (generate (forward (hooked_point run_bare_hook ?bpoint) ?brest) 0 2 [1] ?uhook)
      = \<lparr>hooks = [(0, HookAdd [[[Fin 10, Fin 20]]])], next_id = 1, captured = None,
         evals = [([[[Fin 1, Fin 0]]], [[[Fin 11, Fin 20]]]),
                  ([[[Fin 2, Fin 0]]], [[[Fin 12, Fin 20]]])]\<rparr>"
    by (simp add: numeral_2_eq_2 forward_def hooked_point_def module_call_def
        register_forward_hook_def add_hook_def act_add_bare_def tadd_def tbin_def bcast_def tscale_def)
  have b1: "fst (generate (forward (hooked_point run_hook ?point) ?rest) 0 2 [1] ?winit) = Inr [1, 5, 5]"
    by (simp add: numeral_2_eq_2 forward_def hooked_point_def module_call_def)
  have b2: "fst (generate (forward (hooked_point run_bare_hook ?bpoint) ?brest) 0 2 [1] ?uinit) = Inr [1, 5, 5]"
    by (simp add: numeral_2_eq_2 forward_def hooked_point_def module_call_def)
  have c: "contexts [1] [1, 6, 6] = [[1], [1, 6]]"
    by (simp add: contexts_def upt_rec)
  from t1 s1 e1 have g1: "generate (forward (hooked_point run_hook ?point) ?rest) 0 2 [1] ?whook
      = (Inr [1, 6, 6], \<lparr>hooks = [(0, ActAdd [[[Fin 10, Fin 20]]])], next_id = 1, captured = [],
         evals = [(([[[Fin 1, Fin 0]]], []), ([[[Fin 11, Fin 20]]], [])),
                  (([[[Fin 2, Fin 0]]], []), ([[[Fin 12, Fin 20]]], []))]\<rparr>)"
    by (simp only: prod_eq_iff fst_conv snd_conv simp_thms)
  from t2 s2 e2 have g2: "generate (forward (hooked_point run_bare_hook ?bpoint) ?brest) 0 2 [1] ?uhook
      = (Inr [1, 6, 6], \<lparr>hooks = [(0, HookAdd [[[Fin 10, Fin 20]]])], next_id = 1, captured = None,
         evals = [([[[Fin 1, Fin 0]]], [[[Fin 11, Fin 20]]]),
                  ([[[Fin 2, Fin 0]]], [[[Fin 12, Fin 20]]])]\<rparr>)"
    by (simp only: prod_eq_iff fst_conv snd_conv simp_thms)
  from g1 b1 c g2 b2 show ?thesis by (intro conjI)
qed

lemma generate_no_hooks:
  assumes "hooks s = []" and "hooks t = []"
  shows "fst (generate (forward (hooked_point run point) rest) eos n ids s)
           = fst (generate (forward (hooked_point run point) rest) eos n ids t)"
proof -
  have "fst (generate (forward (hooked_point run point) rest) eos n ids s)
           = fst (generate (forward (hooked_point run point) rest) eos n ids t)
        \<and> (\<lambda>s t. hooks s = [] \<and> hooks t = [])
            (snd (generate (forward (hooked_point run point) rest) eos n ids s))
            (snd (generate (forward (hooked_point run point) rest) eos n ids t))"
    by (rule generate_sim) (simp_all add: forward_no_hooks assms)
  then show ?thesis by simp
qed

lemma remove_registered:
  assumes "hooks w0 = []" and "register_forward_hook h w0 = (i, w1)" and "hooks w2 = hooks w1"
  shows "hooks (remove i w2) = []"
  using assms by (auto simp: register_forward_hook_def remove_def)

lemma layer_forward_wrapped_block:
  "layer_forward (WrappedModule (Block f) kept sv) ids
     = ((case sv of None \<Rightarrow> Inr (f ids) | Some v \<Rightarrow> act_add v (f ids)),
        WrappedModule (Block f) (Some (f ids)) sv)"
  by (simp split: option.splits)

lemma generate_wrapped_state:
  "\<exists>kept'. snd (generate (forward layer_point rest) eos n ids (WrappedModule (Block f) kept sv))
     = WrappedModule (Block f) kept' sv"
proof (induction n arbitrary: ids kept)
  case 0
  show ?case by simp
next
  case (Suc n)
  let ?l1 = "WrappedModule (Block f) (Some (f ids)) sv"
  have "snd (forward layer_point rest ids (WrappedModule (Block f) kept sv)) = ?l1"
    by (simp add: forward_def layer_point_def split: option.splits sum.splits)
  then obtain r where f: "forward layer_point rest ids (WrappedModule (Block f) kept sv) = (r, ?l1)"
    by (cases "forward layer_point rest ids (WrappedModule (Block f) kept sv)") simp
  show ?case
  proof (cases r)
    case (Inl e)
    with f show ?thesis by simp
  next
    case (Inr tok)
    with f Suc.IH[of "ids @ [tok]" "Some (f ids)"] show ?thesis by simp
  qed
qed

lemma change_bias_attn_reset:
  "change_bias_attn c0 sv = Inr c1 \<Longrightarrow> reset_bias_attn c1 (bias c0) = c0"
  by (auto simp: change_bias_attn_def reset_bias_attn_def split: sum.splits)

text \<open>
  Claim C4. After the activation has ended, generation is the baseline again: after
  \<open>handle.remove()\<close>, after \<open>reset_hooks()\<close> and after leaving a \<open>with Trace\<close> block the
  module has no hook and any generation returns what it returns on the model that never
  had one; unwrapping the wrapper gives back the pretrained block itself; and
  \<open>reset_bias_attn\<close> with the saved bias gives back the projection itself.
\<close>

theorem deactivation_restores_baseline:
  fixes w0 :: "(hook, tensor list, 'x block_out) hooked"
    and u0 :: "(bare_hook, tensor option, tensor) hooked"
    and f :: "nat list \<Rightarrow> 'y block_out"
  shows
    "(hooks w0 = [] \<and> register_forward_hook (ActAdd sv) w0 = (i, w1)
        \<and> generate (forward (hooked_point run_hook point) rest) eos n ids w1 = (r, w2)
      \<longrightarrow> hooks (remove i w2) = []
          \<and> fst (generate (forward (hooked_point run_hook point) rest) eos n' ids' (remove i w2))
              = fst (generate (forward (hooked_point run_hook point) rest) eos n' ids' w0))
     \<and> (hooks u0 = []
        \<and> generate (forward (hooked_point run_bare_hook bpoint) brest) eos n ids
             (add_hook (HookAdd sv) u0) = (br, u2)
      \<longrightarrow> fst (generate (forward (hooked_point run_bare_hook bpoint) brest) eos n' ids' (reset_hooks u2))
              = fst (generate (forward (hooked_point run_bare_hook bpoint) brest) eos n' ids' u0))
     \<and> (hooks u0 = []
        \<and> with_trace edit (generate (forward (hooked_point run_bare_hook bpoint) brest) eos n ids) u0
             = (tr, u3)
      \<longrightarrow> hooks u3 = []
          \<and> fst (generate (forward (hooked_point run_bare_hook bpoint) brest) eos n' ids' u3)
              = fst (generate (forward (hooked_point run_bare_hook bpoint) brest) eos n' ids' u0))
     \<and> (generate (forward layer_point lrest) eos n ids (set_steering_vec sv (wrap (Block f))) = (lr, l2)
      \<longrightarrow> unwrap l2 = Inr (Block f))
     \<and> (change_bias_attn c0 sv = Inr c1
      \<longrightarrow> reset_bias_attn c1 (bias c0) = c0
          \<and> fst (generate (forward (hooked_point run_bare_hook bpoint)
                    (attn_rest (reset_bias_attn c1 (bias c0)) tail)) eos n' ids' u0)
              = fst (generate (forward (hooked_point run_bare_hook bpoint)
                    (attn_rest c0 tail)) eos n' ids' u0))"
proof (intro conjI impI)
  assume a: "hooks w0 = [] \<and> register_forward_hook (ActAdd sv) w0 = (i, w1)
        \<and> generate (forward (hooked_point run_hook point) rest) eos n ids w1 = (r, w2)"
  then have "hooks w2 = hooks w1"
    using generate_hooks[of run_hook point rest eos n ids w1] by simp
  with a show h: "hooks (remove i w2) = []"
    by (intro remove_registered[of w0 "ActAdd sv" i w1 w2]) simp_all
  from a have "hooks w0 = []" by simp
  with h show "fst (generate (forward (hooked_point run_hook point) rest) eos n' ids' (remove i w2))
              = fst (generate (forward (hooked_point run_hook point) rest) eos n' ids' w0)"
    by (rule generate_no_hooks)
next
  assume a: "hooks u0 = []
        \<and> generate (forward (hooked_point run_bare_hook bpoint) brest) eos n ids
             (add_hook (HookAdd sv) u0) = (br, u2)"
  have "hooks (reset_hooks u2) = []" by (simp add: reset_hooks_def)
  moreover from a have "hooks u0 = []" by simp
  ultimately show "fst (generate (forward (hooked_point run_bare_hook bpoint) brest) eos n' ids' (reset_hooks u2))
              = fst (generate (forward (hooked_point run_bare_hook bpoint) brest) eos n' ids' u0)"
    by (rule generate_no_hooks)
next
  assume a: "hooks u0 = []
        \<and> with_trace edit (generate (forward (hooked_point run_bare_hook bpoint) brest) eos n ids) u0
             = (tr, u3)"
  obtain j u1 where reg: "register_forward_hook (Trace edit) u0 = (j, u1)"
    by (cases "register_forward_hook (Trace edit) u0")
  obtain r2 u2 where g: "generate (forward (hooked_point run_bare_hook bpoint) brest) eos n ids u1 = (r2, u2)"
    by (cases "generate (forward (hooked_point run_bare_hook bpoint) brest) eos n ids u1")
  from a reg g have u3: "u3 = remove j u2" by (simp add: with_trace_def)
  have "hooks u2 = hooks u1"
    using generate_hooks[of run_bare_hook bpoint brest eos n ids u1] g by simp
  with a reg show h: "hooks u3 = []"
    unfolding u3 by (intro remove_registered[of u0 "Trace edit" j u1 u2]) simp_all
  from a have "hooks u0 = []" by simp
  with h show "fst (generate (forward (hooked_point run_bare_hook bpoint) brest) eos n' ids' u3)
              = fst (generate (forward (hooked_point run_bare_hook bpoint) brest) eos n' ids' u0)"
    by (rule generate_no_hooks)
next
  assume a: "generate (forward layer_point lrest) eos n ids (set_steering_vec sv (wrap (Block f))) = (lr, l2)"
  from generate_wrapped_state[of lrest eos n ids f None "Some sv"] a
  obtain kept' where "l2 = WrappedModule (Block f) kept' (Some sv)"
    by (auto simp: wrap_def)
  then show "unwrap l2 = Inr (Block f)" by simp
next
  assume "change_bias_attn c0 sv = Inr c1"
  then show eq: "reset_bias_attn c1 (bias c0) = c0" by (rule change_bias_attn_reset)
  show "fst (generate (forward (hooked_point run_bare_hook bpoint)
                    (attn_rest (reset_bias_attn c1 (bias c0)) tail)) eos n' ids' u0)
              = fst (generate (forward (hooked_point run_bare_hook bpoint)
                    (attn_rest c0 tail)) eos n' ids' u0)"
    by (simp only: eq)
qed

text \<open>
  An instance of C4: the steered generation yields token 6, every generation after
  deactivation yields the baseline token 5.
\<close>

theorem deactivation_restores_baseline_witness:
  "register_forward_hook (ActAdd [[[Fin 1, Fin 1]]])
       \<lparr>hooks = [], next_id = 0, captured = [], evals = []\<rparr>
     = (0, \<lparr>hooks = [(0, ActAdd [[[Fin 1, Fin 1]]])], next_id = 1, captured = [], evals = []\<rparr>)
   \<and> fst (generate (forward (hooked_point run_hook (\<lambda>ctx. ([[[Fin 0, Fin 0]]], [] :: nat list)))
          (\<lambda>ctx out. if fst out = [[[Fin 0, Fin 0]]] then Inr 5 else Inr 6)) 0 1 [1]
        \<lparr>hooks = [(0, ActAdd [[[Fin 1, Fin 1]]])], next_id = 1, captured = [], evals = []\<rparr>)
       = Inr [1, 6]
   \<and> fst (generate (forward (hooked_point run_hook (\<lambda>ctx. ([[[Fin 0, Fin 0]]], [] :: nat list)))
          (\<lambda>ctx out. if fst out = [[[Fin 0, Fin 0]]] then Inr 5 else Inr 6)) 0 1 [1]
        (remove 0 \<lparr>hooks = [(0, ActAdd [[[Fin 1, Fin 1]]])], next_id = 1, captured = [],
           evals = [(([[[Fin 0, Fin 0]]], []), ([[[Fin 1, Fin 1]]], []))]\<rparr>))
       = Inr [1, 5]
   \<and> fst (generate (forward (hooked_point run_bare_hook (\<lambda>ctx. [[[Fin 0, Fin 0]]]))
          (\<lambda>ctx out. if out = [[[Fin 0, Fin 0]]] then Inr 5 else Inr 6)) 0 1 [1]
        (reset_hooks \<lparr>hooks = [(0, HookAdd [[[Fin 1, Fin 1]]])], next_id = 1, captured = None,
           evals = [([[[Fin 0, Fin 0]]], [[[Fin 1, Fin 1]]])]\<rparr>))
       = Inr [1, 5]
   \<and> with_trace (Some [[[Fin 1, Fin 1]]])
        (generate (forward (hooked_point run_bare_hook (\<lambda>ctx. [[[Fin 0, Fin 0]]]))
          (\<lambda>ctx out. if out = [[[Fin 0, Fin 0]]] then Inr 5 else Inr 6)) 0 1 [1])
        \<lparr>hooks = [], next_id = 0, captured = None, evals = []\<rparr>
       = (Inr [1, 6], \<lparr>hooks = [], next_id = 1, captured = Some [[[Fin 1, Fin 1]]],
           evals = [([[[Fin 0, Fin 0]]], [[[Fin 1, Fin 1]]])]\<rparr>)
   \<and> fst (generate (forward (hooked_point run_bare_hook (\<lambda>ctx. [[[Fin 0, Fin 0]]]))
          (\<lambda>ctx out. if out = [[[Fin 0, Fin 0]]] then Inr 5 else Inr 6)) 0 1 [1]
        \<lparr>hooks = [], next_id = 1, captured = Some [[[Fin 1, Fin 1]]],
           evals = [([[[Fin 0, Fin 0]]], [[[Fin 1, Fin 1]]])]\<rparr>)
       = Inr [1, 5]
   \<and> generate (forward layer_point
          (\<lambda>ctx out. if fst out = [[[Fin 0, Fin 0]]] then Inr 5 else Inr 6)) 0 1 [1]
        (set_steering_vec [[[Fin 1, Fin 1]]]
           (wrap (Block (\<lambda>ctx. ([[[Fin 0, Fin 0]]], [] :: nat list)))))
       = (Inr [1, 6], WrappedModule (Block (\<lambda>ctx. ([[[Fin 0, Fin 0]]], [])))
                        (Some ([[[Fin 0, Fin 0]]], [])) (Some [[[Fin 1, Fin 1]]]))
   \<and> unwrap (WrappedModule (Block (\<lambda>ctx. ([[[Fin 0, Fin 0]]], [] :: nat list)))
                        (Some ([[[Fin 0, Fin 0]]], [])) (Some [[[Fin 1, Fin 1]]]))
       = Inr (Block (\<lambda>ctx. ([[[Fin 0, Fin 0]]], [])))
   \<and> change_bias_attn \<lparr>nf = 1, weight = [[Fin 2], [Fin 3]], bias = R1 [Fin 1]\<rparr> [[[Fin 1, Fin 1]]]
       = Inr \<lparr>nf = 1, weight = [[Fin 2], [Fin 3]], bias = R1 [Fin 6]\<rparr>
   \<and> reset_bias_attn \<lparr>nf = 1, weight = [[Fin 2], [Fin 3]], bias = R1 [Fin 6]\<rparr> (R1 [Fin 1])
       = \<lparr>nf = 1, weight = [[Fin 2], [Fin 3]], bias = R1 [Fin 1]\<rparr>"
  using deactivation_restores_baseline[where
      ?w0.0 = "\<lparr>hooks = [], next_id = 0, captured = [], evals = []\<rparr>"
      and sv = "[[[Fin 1, Fin 1]]]" and i = 0
      and ?w1.0 = "\<lparr>hooks = [(0, ActAdd [[[Fin 1, Fin 1]]])], next_id = 1, captured = [], evals = []\<rparr>"
      and point = "\<lambda>ctx. ([[[Fin 0, Fin 0]]], [] :: nat list)"
      and rest = "\<lambda>ctx out. if fst out = [[[Fin 0, Fin 0]]] then Inr 5 else Inr 6"
      and eos = 0 and n = 1 and ids = "[1]" and n' = 1 and ids' = "[1]"
      and r = "Inr [1, 6]"
      and ?w2.0 = "\<lparr>hooks = [(0, ActAdd [[[Fin 1, Fin 1]]])], next_id = 1, captured = [],
           evals = [(([[[Fin 0, Fin 0]]], []), ([[[Fin 1, Fin 1]]], []))]\<rparr>"
      and ?u0.0 = "\<lparr>hooks = [], next_id = 0, captured = None, evals = []\<rparr>"
      and bpoint = "\<lambda>ctx. [[[Fin 0, Fin 0]]]"
      and brest = "\<lambda>ctx out. if out = [[[Fin 0, Fin 0]]] then Inr 5 else Inr 6"
      and br = "Inr [1, 6]"
      and ?u2.0 = "\<lparr>hooks = [(0, HookAdd [[[Fin 1, Fin 1]]])], next_id = 1, captured = None,
           evals = [([[[Fin 0, Fin 0]]], [[[Fin 1, Fin 1]]])]\<rparr>"
      and edit = "Some [[[Fin 1, Fin 1]]]" and tr = "Inr [1, 6]"
      and ?u3.0 = "\<lparr>hooks = [], next_id = 1, captured = Some [[[Fin 1, Fin 1]]],
           evals = [([[[Fin 0, Fin 0]]], [[[Fin 1, Fin 1]]])]\<rparr>"
      and f = "\<lambda>ctx. ([[[Fin 0, Fin 0]]], [] :: nat list)"
      and lrest = "\<lambda>ctx out. if fst out = [[[Fin 0, Fin 0]]] then Inr 5 else Inr 6"
      and lr = "Inr [1, 6]"
      and ?l2.0 = "WrappedModule (Block (\<lambda>ctx. ([[[Fin 0, Fin 0]]], [])))
                        (Some ([[[Fin 0, Fin 0]]], [])) (Some [[[Fin 1, Fin 1]]])"
      and ?c0.0 = "\<lparr>nf = 1, weight = [[Fin 2], [Fin 3]], bias = R1 [Fin 1]\<rparr>"
      and ?c1.0 = "\<lparr>nf = 1, weight = [[Fin 2], [Fin 3]], bias = R1 [Fin 6]\<rparr>"
      and tail = "\<lambda>ctx y. 0"]
  by (simp add: forward_def hooked_point_def layer_point_def module_call_def
      register_forward_hook_def add_hook_def remove_def reset_hooks_def with_trace_def wrap_def
      act_add_def act_add_bare_def tadd_def tbin_def bcast_def
      change_bias_attn_def reset_bias_attn_def conv1d_forward_def squeeze_def squeeze2_def
      squeeze1_def addmm_def expand_bias_def expand_def)

lemma act_add_zero:
  assumes "finite_vec v" and "hidden_dim (length v) (fst out)"
  shows "act_add (tscale 0 [[v]]) out = Inr out"
proof -
  have "tadd (fst out) [[replicate (length v) (Fin 0)]]
          = Inr (add_to_rows (replicate (length v) (Fin 0)) (fst out))"
    using assms(2) by (intro tadd_single) simp
  then show ?thesis
    using assms by (simp add: act_add_def tscale_single scale_zero_finite add_to_rows_zeros)
qed

text \<open>
  Claim C5 as stated fails: the steering vector that the derivation returns for two
  identical activations has the components \<open>NaN\<close>, zero times \<open>NaN\<close> is \<open>NaN\<close>, and with
  that injection attached the hook and the wrapper pass on an activation of \<open>NaN\<close>: the
  model generates token 6 where it generates 5 with nothing attached.
\<close>

theorem zero_coefficient_counterexample:
  "steering_vec [[[Fin 1, Fin 2]]] [[[Fin 1, Fin 2]]] = Inr [[[NaN, NaN]]]
   \<and> act_add (tscale 0 [[[NaN, NaN]]]) ([[[Fin 0, Fin 0]]], [] :: nat list)
       = Inr ([[[NaN, NaN]]], [])
   \<and> fst (generate (forward (hooked_point run_hook (\<lambda>ctx. ([[[Fin 0, Fin 0]]], [] :: nat list)))
          (\<lambda>ctx out. if fst out = [[[Fin 0, Fin 0]]] then Inr 5 else Inr 6)) 0 1 [1]
        (snd (register_forward_hook (ActAdd (tscale 0 [[[NaN, NaN]]]))
           \<lparr>hooks = [], next_id = 0, captured = [], evals = []\<rparr>)))
       = Inr [1, 6]
   \<and> fst (generate (forward (hooked_point run_hook (\<lambda>ctx. ([[[Fin 0, Fin 0]]], [] :: nat list)))
          (\<lambda>ctx out. if fst out = [[[Fin 0, Fin 0]]] then Inr 5 else Inr 6)) 0 1 [1]
        \<lparr>hooks = [], next_id = 0, captured = [], evals = []\<rparr>)
       = Inr [1, 5]
   \<and> fst (generate (forward layer_point
          (\<lambda>ctx out. if fst out = [[[Fin 0, Fin 0]]] then Inr 5 else Inr 6)) 0 1 [1]
        (set_steering_vec (tscale 0 [[[NaN, NaN]]])
           (wrap (Block (\<lambda>ctx. ([[[Fin 0, Fin 0]]], [] :: nat list))))))
       = Inr [1, 6]
   \<and> fst (generate (forward layer_point
          (\<lambda>ctx out. if fst out = [[[Fin 0, Fin 0]]] then Inr 5 else Inr 6)) 0 1 [1]
        (Block (\<lambda>ctx. ([[[Fin 0, Fin 0]]], [] :: nat list))))
       = Inr [1, 5]"
  by (simp add: steering_vec_def tsub_def last_slice_def tdiv_def tnorm_def vnorm_def fsum_def
      fsub_def forward_def hooked_point_def layer_point_def module_call_def
      register_forward_hook_def wrap_def act_add_def tadd_def tbin_def bcast_def tscale_def)

text \<open>
  Claim C5, amended. With coefficient zero and a steering vector of finite entries and
  of the hidden dimension of the point, generation with the injection attached returns
  what generation with nothing attached returns, for every input and every decoding
  parameter of the model: with the forward hook, and with the wrapper against the
  block that is not wrapped.
\<close>

theorem zero_coefficient_is_noop:
  fixes w0 :: "(hook, tensor list, 'x block_out) hooked"
    and f :: "nat list \<Rightarrow> 'y block_out"
  shows
    "(hooks w0 = [] \<and> finite_vec v \<and> (\<forall>ctx. hidden_dim (length v) (fst (point ctx)))
      \<longrightarrow> fst (generate (forward (hooked_point run_hook point) rest) eos n ids
                (snd (register_forward_hook (ActAdd (tscale 0 [[v]])) w0)))
            = fst (generate (forward (hooked_point run_hook point) rest) eos n ids w0))
     \<and> (finite_vec v \<and> (\<forall>ctx. hidden_dim (length v) (fst (f ctx)))
      \<longrightarrow> fst (generate (forward layer_point lrest) eos n ids
                (set_steering_vec (tscale 0 [[v]]) (wrap (Block f))))
            = fst (generate (forward layer_point lrest) eos n ids (Block f)))"
proof (intro conjI impI)
  assume a: "hooks w0 = [] \<and> finite_vec v \<and> (\<forall>ctx. hidden_dim (length v) (fst (point ctx)))"
  let ?F = "forward (hooked_point run_hook point) rest"
  let ?R = "\<lambda>s t :: (hook, tensor list, 'x block_out) hooked.
      hooks s = [(next_id w0, ActAdd (tscale 0 [[v]]))] \<and> hooks t = []"
  let ?w1 = "snd (register_forward_hook (ActAdd (tscale 0 [[v]])) w0)"
  have step: "fst (?F ctx s) = fst (?F ctx t) \<and> ?R (snd (?F ctx s)) (snd (?F ctx t))"
    if "?R s t" for ctx s t
  proof -
    have "act_add (tscale 0 [[v]]) (point ctx) = Inr (point ctx)"
      using a by (intro act_add_zero) simp_all
    with that show ?thesis
      by (simp add: forward_def hooked_point_def module_call_def)
  qed
  have "?R ?w1 w0" using a by (simp add: register_hooks)
  with step have "fst (generate ?F eos n ids ?w1) = fst (generate ?F eos n ids w0)
      \<and> ?R (snd (generate ?F eos n ids ?w1)) (snd (generate ?F eos n ids w0))"
    by (rule generate_sim)
  then show "fst (generate ?F eos n ids ?w1) = fst (generate ?F eos n ids w0)" by simp
next
  assume a: "finite_vec v \<and> (\<forall>ctx. hidden_dim (length v) (fst (f ctx)))"
  let ?F = "forward layer_point lrest"
  let ?R = "\<lambda>(s :: 'y layer) (t :: 'y layer).
      (\<exists>kept. s = WrappedModule (Block f) kept (Some (tscale 0 [[v]]))) \<and> t = Block f"
  have step: "fst (?F ctx s) = fst (?F ctx t) \<and> ?R (snd (?F ctx s)) (snd (?F ctx t))"
    if "?R s t" for ctx s t
  proof -
    have "act_add (tscale 0 [[v]]) (f ctx) = Inr (f ctx)"
      using a by (intro act_add_zero) simp_all
    with that show ?thesis
      by (auto simp: forward_def layer_point_def)
  qed
  have "?R (set_steering_vec (tscale 0 [[v]]) (wrap (Block f))) (Block f)"
    by (simp add: wrap_def)
  with step have "fst (generate ?F eos n ids (set_steering_vec (tscale 0 [[v]]) (wrap (Block f))))
        = fst (generate ?F eos n ids (Block f))
      \<and> ?R (snd (generate ?F eos n ids (set_steering_vec (tscale 0 [[v]]) (wrap (Block f)))))
           (snd (generate ?F eos n ids (Block f)))"
    by (rule generate_sim)
  then show "fst (generate ?F eos n ids (set_steering_vec (tscale 0 [[v]]) (wrap (Block f))))
        = fst (generate ?F eos n ids (Block f))" by simp
qed

text \<open>An instance of the amended C5: zero times the vector (3, 4).\<close>

theorem zero_coefficient_is_noop_witness:
  "finite_vec [Fin 3, Fin 4]
   \<and> fst (generate (forward (hooked_point run_hook (\<lambda>ctx. ([[[Fin 0, Fin 0]]], [] :: nat list)))
          (\<lambda>ctx out. if fst out = [[[Fin 0, Fin 0]]] then Inr 5 else Inr 6)) 0 1 [1]
        (snd (register_forward_hook (ActAdd (tscale 0 [[[Fin 3, Fin 4]]]))
           \<lparr>hooks = [], next_id = 0, captured = [], evals = []\<rparr>)))
       = Inr [1, 5]
   \<and> fst (generate (forward (hooked_point run_hook (\<lambda>ctx. ([[[Fin 0, Fin 0]]], [] :: nat list)))
          (\<lambda>ctx out. if fst out = [[[Fin 0, Fin 0]]] then Inr 5 else Inr 6)) 0 1 [1]
        \<lparr>hooks = [], next_id = 0, captured = [], evals = []\<rparr>)
       = Inr [1, 5]
   \<and> fst (generate (forward layer_point
          (\<lambda>ctx out. if fst out = [[[Fin 0, Fin 0]]] then Inr 5 else Inr 6)) 0 1 [1]
        (set_steering_vec (tscale 0 [[[Fin 3, Fin 4]]])
           (wrap (Block (\<lambda>ctx. ([[[Fin 0, Fin 0]]], [] :: nat list))))))
       = Inr [1, 5]"
  using zero_coefficient_is_noop[where
      ?w0.0 = "\<lparr>hooks = [], next_id = 0, captured = [], evals = []\<rparr>"
      and v = "[Fin 3, Fin 4]"
      and point = "\<lambda>ctx. ([[[Fin 0, Fin 0]]], [] :: nat list)"
      and rest = "\<lambda>ctx out. if fst out = [[[Fin 0, Fin 0]]] then Inr 5 else Inr 6"
      and f = "\<lambda>ctx. ([[[Fin 0, Fin 0]]], [] :: nat list)"
      and lrest = "\<lambda>ctx out. if fst out = [[[Fin 0, Fin 0]]] then Inr 5 else Inr 6"
      and eos = 0 and n = 1 and ids = "[1]"]
  by (simp add: finite_vec_def hidden_dim_def forward_def hooked_point_def layer_point_def
      module_call_def)

section \<open>Facts about the projection\<close>

lemma map2_fadd_Fin: "map2 fadd (map Fin a) (map Fin b) = map Fin (map2 (+) a b)"
  by (simp add: zip_map_map case_prod_unfold)

lemma map_fmul_Fin: "map (fmul (Fin c)) (map Fin a) = map Fin (map ((*) c) a)"
  by simp

lemma finite_vec_Fin: "finite_vec (map Fin a)"
  by (simp add: finite_vec_def list_all_iff)

lemma finite_vec_replicate_zero [simp]: "finite_vec (replicate n (Fin 0))"
  by (simp add: finite_vec_def list_all_iff)

lemma finite_vec_Cons [simp]: "finite_vec (x # xs) \<longleftrightarrow> is_fin x \<and> finite_vec xs"
  by (simp add: finite_vec_def)

lemma is_finE: "is_fin x \<Longrightarrow> (\<And>r. x = Fin r \<Longrightarrow> P) \<Longrightarrow> P"
  by (cases x) auto

lemma finite_vecE: "finite_vec v \<Longrightarrow> (\<And>rs. v = map Fin rs \<Longrightarrow> P) \<Longrightarrow> P"
  by (auto simp: finite_vec_conv)

lemma vecmat_finite_length:
  assumes "finite_vec xs" and "wf_weight n W"
  shows "finite_vec (vecmat n xs W) \<and> length (vecmat n xs W) = n"
  using assms
proof (induction n xs W rule: vecmat.induct)
  case (1 n x xs w ws)
  then have "is_fin x" "finite_vec xs" "finite_vec w" "length w = n" "wf_weight n ws"
    by (simp_all add: wf_weight_def)
  with 1 have ih: "finite_vec (vecmat n xs ws)" "length (vecmat n xs ws) = n" by simp_all
  from \<open>is_fin x\<close> obtain x' where x: "x = Fin x'" by (rule is_finE)
  from \<open>finite_vec w\<close> obtain w' where w: "w = map Fin w'" by (rule finite_vecE)
  from ih(1) obtain a' where a: "vecmat n xs ws = map Fin a'" by (rule finite_vecE)
  have eq: "vecmat n (x # xs) (w # ws) = map Fin (map2 (+) (map ((*) x') w') a')"
    by (simp only: vecmat.simps x w a map_fmul_Fin map2_fadd_Fin)
  have "length w' = n" "length a' = n"
    using \<open>length w = n\<close> ih(2) by (simp_all add: w a)
  then have "length (map Fin (map2 (+) (map ((*) x') w') a')) = n" by simp
  then show ?case unfolding eq using finite_vec_Fin by blast
qed simp_all

lemma real_row_distrib:
  fixes w a b :: "real list"
  assumes "length w = length a" and "length a = length b"
  shows "map2 (+) (map ((*) (x + y)) w) (map2 (+) a b)
           = map2 (+) (map2 (+) (map ((*) x) w) a) (map2 (+) (map ((*) y) w) b)"
  using assms by (induction w a b rule: list_induct3) (simp_all add: algebra_simps)

lemma vecmat_add:
  assumes "finite_vec r" and "finite_vec v" and "length r = length v" and "wf_weight n W"
  shows "vecmat n (map2 fadd r v) W = map2 fadd (vecmat n r W) (vecmat n v W)"
  using assms
proof (induction W arbitrary: r v)
  case Nil
  have "vecmat n xs [] = replicate n (Fin 0)" for xs by (cases xs) simp_all
  then show ?case by (simp add: map2_fadd_zeros)
next
  case (Cons w ws)
  show ?case
  proof (cases r)
    case Nil
    with Cons.prems show ?thesis by (simp add: map2_fadd_zeros)
  next
    case r: (Cons x xs)
    with Cons.prems obtain y ys where v: "v = y # ys" by (cases v) auto
    from Cons.prems r v have fin: "is_fin x" "is_fin y" "finite_vec xs" "finite_vec ys"
      and len: "length xs = length ys" and wf: "wf_weight n ws" "finite_vec w" "length w = n"
      by (simp_all add: wf_weight_def)
    from fin(1) obtain x' where x: "x = Fin x'" by (rule is_finE)
    from fin(2) obtain y' where y: "y = Fin y'" by (rule is_finE)
    from wf(2) obtain w' where w: "w = map Fin w'" by (rule finite_vecE)
    from vecmat_finite_length[OF fin(3) wf(1)] obtain a' where
      a: "vecmat n xs ws = map Fin a'" and la: "length a' = n"
      by (auto elim!: finite_vecE)
    from vecmat_finite_length[OF fin(4) wf(1)] obtain b' where
      b: "vecmat n ys ws = map Fin b'" and lb: "length b' = n"
      by (auto elim!: finite_vecE)
    have lw: "length w' = n" using wf(3) by (simp add: w)
    have ih: "vecmat n (map2 fadd xs ys) ws = map Fin (map2 (+) a' b')"
      using Cons.IH[OF fin(3,4) len wf(1)] by (simp only: a b map2_fadd_Fin)
    have l: "map2 fadd r v = Fin (x' + y') # map2 fadd xs ys"
      by (simp add: r v x y)
    have "vecmat n (map2 fadd r v) (w # ws)
            = map2 fadd (map (fmul (Fin (x' + y'))) w) (vecmat n (map2 fadd xs ys) ws)"
      by (simp only: l vecmat.simps)
    also have "\<dots> = map Fin (map2 (+) (map ((*) (x' + y')) w') (map2 (+) a' b'))"
      by (simp only: w ih map_fmul_Fin map2_fadd_Fin)
    also have "\<dots> = map Fin (map2 (+) (map2 (+) (map ((*) x') w') a') (map2 (+) (map ((*) y') w') b'))"
      using lw la lb by (simp only: real_row_distrib)
    also have "\<dots> = map2 fadd (map2 fadd (map (fmul (Fin x')) w) (vecmat n xs ws))
                            (map2 fadd (map (fmul (Fin y')) w) (vecmat n ys ws))"
      by (simp only: w a b map_fmul_Fin map2_fadd_Fin)
    also have "\<dots> = map2 fadd (vecmat n r (w # ws)) (vecmat n v (w # ws))"
      by (simp only: r v x y vecmat.simps)
    finally show ?thesis .
  qed
qed

lemma squeeze_single: "length v \<noteq> 1 \<Longrightarrow> squeeze [[v]] = R1 v"
  by (simp add: squeeze_def squeeze2_def squeeze1_def)

lemma expand_bias_R1: "length b = n \<Longrightarrow> expand_bias k n (R1 b) = Inr (replicate k b)"
  by (cases "k = 1") (simp_all add: expand_bias_def expand_def)

lemma map2_replicate_left:
  "map2 g (replicate (length xs) b) (map f xs) = map (\<lambda>x. g b (f x)) xs"
  by (induction xs) simp_all

lemma addmm_R1:
  assumes "list_all (\<lambda>r. length r = length W) x" and "length b = n"
  shows "addmm (R1 b) x W n = Inr (map (\<lambda>r. map2 fadd b (vecmat n r W)) x)"
  using assms by (simp add: addmm_def expand_bias_R1 map2_replicate_left)

lemma conv1d_forward_R1:
  assumes "bias c = R1 b" and "length b = nf c" and "length v = length (weight c)"
  shows "conv1d_forward c (R1 v) = Inr (R1 (map2 fadd b (vecmat (nf c) v (weight c))))"
proof -
  have "addmm (R1 b) [v] (weight c) (nf c)
          = Inr (map (\<lambda>r. map2 fadd b (vecmat (nf c) r (weight c))) [v])"
    using assms by (intro addmm_R1) simp_all
  then show ?thesis by (simp add: conv1d_forward_def assms(1))
qed

lemma conv1d_forward_R3:
  assumes "bias c = R1 b" and "length b = nf c" and "hidden_dim (length (weight c)) t"
  shows "conv1d_forward c (R3 t)
           = Inr (R3 (unflat (map length t)
                        (map (\<lambda>r. map2 fadd b (vecmat (nf c) r (weight c))) (concat t))))"
proof -
  have "list_all (\<lambda>r. length r = length (weight c)) (concat t)"
    using assms(3) by (auto simp: hidden_dim_def list_all_iff)
  then have "addmm (R1 b) (concat t) (weight c) (nf c)
          = Inr (map (\<lambda>r. map2 fadd b (vecmat (nf c) r (weight c))) (concat t))"
    using assms(2) by (rule addmm_R1)
  then show ?thesis by (simp add: conv1d_forward_def assms(1))
qed

lemma change_bias_attn_single:
  assumes "bias c = R1 b" and "length b = nf c" and "length v = length (weight c)"
    and "length v \<noteq> 1"
  shows "change_bias_attn c [[v]] = Inr (c\<lparr>bias := R1 (map2 fadd b (vecmat (nf c) v (weight c)))\<rparr>)"
  using assms by (simp add: change_bias_attn_def squeeze_single conv1d_forward_R1)

lemma real_cancel_rows:
  fixes b p q :: "real list"
  assumes "length b = length p" and "length p = length q"
  shows "map2 (+) (map2 (+) b p) q = map2 (+) b q \<longleftrightarrow> p = replicate (length p) 0"
  using assms by (induction b p q rule: list_induct3) auto

lemma map_Fin_eq_iff: "map Fin a = map Fin b \<longleftrightarrow> a = b"
  by (rule inj_map_eq_map) (simp add: inj_on_def)

lemma map_Fin_zeros: "map Fin (replicate n 0) = replicate n (Fin 0)"
  by simp

lemma fl_cancel_rows:
  assumes "finite_vec b" and "finite_vec p" and "finite_vec q"
    and "length b = n" and "length p = n" and "length q = n"
  shows "map2 fadd (map2 fadd b p) q = map2 fadd b q \<longleftrightarrow> p = replicate n (Fin 0)"
proof -
  from assms(1) obtain b' where b: "b = map Fin b'" by (rule finite_vecE)
  from assms(2) obtain p' where p: "p = map Fin p'" by (rule finite_vecE)
  from assms(3) obtain q' where q: "q = map Fin q'" by (rule finite_vecE)
  have len: "length b' = length p'" "length p' = length q'" "length p' = n"
    using assms(4,5,6) by (simp_all add: b p q)
  have "map2 fadd (map2 fadd b p) q = map2 fadd b q
          \<longleftrightarrow> map Fin (map2 (+) (map2 (+) b' p') q') = map Fin (map2 (+) b' q')"
    by (simp only: b p q map2_fadd_Fin)
  also have "\<dots> \<longleftrightarrow> p' = replicate (length p') 0"
    by (simp only: map_Fin_eq_iff real_cancel_rows[OF len(1,2)])
  also have "\<dots> \<longleftrightarrow> map Fin p' = map Fin (replicate n 0)"
    by (simp only: map_Fin_eq_iff len(3))
  finally show ?thesis by (simp only: p map_Fin_zeros)
qed

text \<open>
  Claim C9. \<open>change_bias_attn\<close> sets the bias to the projection of the steering vector
  under the bias bound at the time of the call: the current bias plus the vector times
  the weight. A second call without a reset in between starts from the edited bias, so
  its result carries both edits, and it is the bias a single edit of the original would
  give only when the first edit was zero.
\<close>

theorem change_bias_attn_compounds:
  assumes "bias c = R1 b" and "finite_vec b" and "length b = nf c"
    and "wf_weight (nf c) (weight c)"
    and "finite_vec v1" and "length v1 = length (weight c)" and "length v1 \<noteq> 1"
    and "finite_vec v2" and "length v2 = length (weight c)" and "length v2 \<noteq> 1"
    and "p1 = vecmat (nf c) v1 (weight c)" and "p2 = vecmat (nf c) v2 (weight c)"
  shows "change_bias_attn c [[v1]] = Inr (c\<lparr>bias := R1 (map2 fadd b p1)\<rparr>)
     \<and> change_bias_attn (c\<lparr>bias := R1 (map2 fadd b p1)\<rparr>) [[v2]]
         = Inr (c\<lparr>bias := R1 (map2 fadd (map2 fadd b p1) p2)\<rparr>)
     \<and> (map2 fadd (map2 fadd b p1) p2 = map2 fadd b p2 \<longleftrightarrow> p1 = replicate (nf c) (Fin 0))"
proof -
  have fp1: "finite_vec p1" "length p1 = nf c"
    using vecmat_finite_length[OF assms(5,4)] by (simp_all add: assms(11))
  have fp2: "finite_vec p2" "length p2 = nf c"
    using vecmat_finite_length[OF assms(8,4)] by (simp_all add: assms(12))
  have first: "change_bias_attn c [[v1]] = Inr (c\<lparr>bias := R1 (map2 fadd b p1)\<rparr>)"
    unfolding assms(11) using assms(1,3,6,7) by (rule change_bias_attn_single)
  have "change_bias_attn (c\<lparr>bias := R1 (map2 fadd b p1)\<rparr>) [[v2]]
         = Inr (c\<lparr>bias := R1 (map2 fadd b p1)\<rparr>\<lparr>bias := R1 (map2 fadd (map2 fadd b p1)
             (vecmat (nf (c\<lparr>bias := R1 (map2 fadd b p1)\<rparr>)) v2 (weight (c\<lparr>bias := R1 (map2 fadd b p1)\<rparr>))))\<rparr>)"
    using assms(3,9,10) fp1(2) by (intro change_bias_attn_single) simp_all
  then have second: "change_bias_attn (c\<lparr>bias := R1 (map2 fadd b p1)\<rparr>) [[v2]]
         = Inr (c\<lparr>bias := R1 (map2 fadd (map2 fadd b p1) p2)\<rparr>)"
    by (simp add: assms(12))
  have third: "map2 fadd (map2 fadd b p1) p2 = map2 fadd b p2 \<longleftrightarrow> p1 = replicate (nf c) (Fin 0)"
    using assms(2) fp1(1) fp2(1) assms(3) fp1(2) fp2(2) by (rule fl_cancel_rows)
  from first second third show ?thesis by blast
qed

text \<open>An instance of C9: the bias goes from 1 to 6 to 8, not to 3.\<close>

theorem change_bias_attn_compounds_witness:
  "wf_weight 1 [[Fin 2], [Fin 3]] \<and> finite_vec [Fin 1, Fin 1] \<and> finite_vec [Fin 1, Fin 0]
   \<and> vecmat 1 [Fin 1, Fin 1] [[Fin 2], [Fin 3]] = [Fin 5]
   \<and> vecmat 1 [Fin 1, Fin 0] [[Fin 2], [Fin 3]] = [Fin 2]
   \<and> change_bias_attn \<lparr>nf = 1, weight = [[Fin 2], [Fin 3]], bias = R1 [Fin 1]\<rparr> [[[Fin 1, Fin 1]]]
       = Inr \<lparr>nf = 1, weight = [[Fin 2], [Fin 3]], bias = R1 [Fin 6]\<rparr>
   \<and> change_bias_attn \<lparr>nf = 1, weight = [[Fin 2], [Fin 3]], bias = R1 [Fin 6]\<rparr> [[[Fin 1, Fin 0]]]
       = Inr \<lparr>nf = 1, weight = [[Fin 2], [Fin 3]], bias = R1 [Fin 8]\<rparr>
   \<and> map2 fadd [Fin 1] [Fin 2] = [Fin 3]
   \<and> [Fin 8] \<noteq> [Fin 3]"
  using change_bias_attn_compounds[of "\<lparr>nf = 1, weight = [[Fin 2], [Fin 3]], bias = R1 [Fin 1]\<rparr>"
      "[Fin 1]" "[Fin 1, Fin 1]" "[Fin 1, Fin 0]" "[Fin 5]" "[Fin 2]"]
  by (simp add: wf_weight_def finite_vec_def)

lemma real_row_shuffle:
  fixes b p q :: "real list"
  assumes "length b = length p" and "length p = length q"
  shows "map2 (+) b (map2 (+) p q) = map2 (+) (map2 (+) b q) p"
  using assms by (induction b p q rule: list_induct3) simp_all

lemma finite_vec_scale: "finite_vec v \<Longrightarrow> finite_vec (map (fmul (Fin c)) v)"
  by (erule finite_vecE) (simp only: map_fmul_Fin finite_vec_Fin)

lemma shifted_row:
  assumes "finite_vec b" and "length b = n" and "wf_weight n W"
    and "finite_vec v" and "finite_vec r" and "length r = length v"
  shows "map2 fadd b (vecmat n (map2 fadd r v) W)
           = map2 fadd (map2 fadd b (vecmat n v W)) (vecmat n r W)"
proof -
  from assms(1) obtain b' where b: "b = map Fin b'" by (rule finite_vecE)
  from vecmat_finite_length[OF assms(5,3)] obtain p' where
    p: "vecmat n r W = map Fin p'" and lp: "length p' = n"
    by (auto elim!: finite_vecE)
  from vecmat_finite_length[OF assms(4,3)] obtain q' where
    q: "vecmat n v W = map Fin q'" and lq: "length q' = n"
    by (auto elim!: finite_vecE)
  have lb: "length b' = n" using assms(2) by (simp add: b)
  have "map2 fadd b (vecmat n (map2 fadd r v) W) = map Fin (map2 (+) b' (map2 (+) p' q'))"
    by (simp only: vecmat_add[OF assms(5,4,6,3)] b p q map2_fadd_Fin)
  also have "\<dots> = map Fin (map2 (+) (map2 (+) b' q') p')"
    using lb lp lq by (simp only: real_row_shuffle)
  also have "\<dots> = map2 fadd (map2 fadd b (vecmat n v W)) (vecmat n r W)"
    by (simp only: b p q map2_fadd_Fin)
  finally show ?thesis .
qed

lemma concat_add_to_rows: "concat (add_to_rows v t) = map (\<lambda>r. map2 fadd r v) (concat t)"
  by (simp add: add_to_rows_def map_concat)

lemma lengths_add_to_rows: "map length (add_to_rows v t) = map length t"
  by (simp add: add_to_rows_def)

lemma conv1d_forward_shift:
  assumes "bias c = R1 b" and "finite_vec b" and "length b = nf c"
    and "wf_weight (nf c) (weight c)"
    and "finite_vec v" and "length v = length (weight c)"
    and "finite_tensor x" and "hidden_dim (length v) x"
  shows "conv1d_forward c (R3 (add_to_rows v x))
           = conv1d_forward (c\<lparr>bias := R1 (map2 fadd b (vecmat (nf c) v (weight c)))\<rparr>) (R3 x)"
proof -
  let ?b1 = "map2 fadd b (vecmat (nf c) v (weight c))"
  have lb1: "length ?b1 = nf c"
    using vecmat_finite_length[OF assms(5,4)] assms(3) by simp
  have rows: "map (\<lambda>r. map2 fadd b (vecmat (nf c) r (weight c))) (map (\<lambda>r. map2 fadd r v) (concat x))
                = map (\<lambda>r. map2 fadd ?b1 (vecmat (nf c) r (weight c))) (concat x)"
  proof -
    have "map2 fadd b (vecmat (nf c) (map2 fadd r v) (weight c))
            = map2 fadd ?b1 (vecmat (nf c) r (weight c))" if "r \<in> set (concat x)" for r
    proof -
      from that assms(7) have "finite_vec r"
        by (auto simp: finite_tensor_def list_all_iff)
      moreover from that assms(8) have "length r = length v"
        by (auto dest: hidden_dimD)
      ultimately show ?thesis
        using assms(2,3,4,5) by (intro shifted_row) simp_all
    qed
    then show ?thesis by (simp add: comp_def)
  qed
  have "conv1d_forward c (R3 (add_to_rows v x))
          = Inr (R3 (unflat (map length (add_to_rows v x))
                       (map (\<lambda>r. map2 fadd b (vecmat (nf c) r (weight c))) (concat (add_to_rows v x)))))"
    using assms by (intro conv1d_forward_R3) (simp_all add: hidden_dim_add_to_rows)
  also have "\<dots> = Inr (R3 (unflat (map length x)
                       (map (\<lambda>r. map2 fadd ?b1 (vecmat (nf c) r (weight c))) (concat x))))"
    by (simp only: lengths_add_to_rows concat_add_to_rows rows)
  also have "\<dots> = conv1d_forward (c\<lparr>bias := R1 ?b1\<rparr>) (R3 x)"
    using conv1d_forward_R3[of "c\<lparr>bias := R1 ?b1\<rparr>" ?b1 x] lb1 assms(6,8) by simp
  finally show ?thesis .
qed

text \<open>
  With exact arithmetic the bias edit and the injection generate the same tokens.
\<close>

lemma bias_edit_equals_injection_exact:
  fixes u0 :: "(bare_hook, tensor option, tensor) hooked"
  assumes "hooks u0 = []"
    and "bias c0 = R1 b" and "finite_vec b" and "length b = nf c0"
    and "wf_weight (nf c0) (weight c0)"
    and "finite_vec v" and "length v = length (weight c0)" and "length v \<noteq> 1"
    and "\<forall>ctx. finite_tensor (ln_1 ctx) \<and> hidden_dim (length v) (ln_1 ctx)"
    and "c1 = c0\<lparr>bias := R1 (map2 fadd b (vecmat (nf c0) (map (fmul (Fin coeff)) v) (weight c0)))\<rparr>"
  shows "change_bias_attn c0 (tscale coeff [[v]]) = Inr c1
         \<and> fst (generate (forward (hooked_point run_bare_hook ln_1) (attn_rest c1 tail)) eos n ids u0)
             = fst (with_trace (Some (tscale coeff [[v]]))
                     (generate (forward (hooked_point run_bare_hook ln_1) (attn_rest c0 tail)) eos n ids)
                     u0)"
proof -
  let ?v = "map (fmul (Fin coeff)) v"
  let ?c1 = "c0\<lparr>bias := R1 (map2 fadd b (vecmat (nf c0) ?v (weight c0)))\<rparr>"
  let ?F1 = "forward (hooked_point run_bare_hook ln_1) (attn_rest ?c1 tail)"
  let ?F0 = "forward (hooked_point run_bare_hook ln_1) (attn_rest c0 tail)"
  let ?u1 = "snd (register_forward_hook (Trace (Some [[?v]])) u0)"
  let ?R = "\<lambda>s t :: (bare_hook, tensor option, tensor) hooked.
      hooks s = [] \<and> hooks t = [(next_id u0, Trace (Some [[?v]]))]"
  have fv: "finite_vec ?v" using assms(6) by (rule finite_vec_scale)
  have lv: "length ?v = length (weight c0)" "length ?v \<noteq> 1" using assms(7,8) by simp_all
  have change: "change_bias_attn c0 (tscale coeff [[v]]) = Inr ?c1"
    unfolding tscale_single using assms(2,4) lv by (rule change_bias_attn_single)
  have step: "fst (?F1 ctx s) = fst (?F0 ctx t) \<and> ?R (snd (?F1 ctx s)) (snd (?F0 ctx t))"
    if "?R s t" for ctx s t
  proof -
    have hd: "hidden_dim (length ?v) (ln_1 ctx)" using assms(9) by simp
    have "conv1d_forward c0 (R3 (add_to_rows ?v (ln_1 ctx))) = conv1d_forward ?c1 (R3 (ln_1 ctx))"
      using assms(2,3,4,5) fv lv(1) assms(9) hd by (intro conv1d_forward_shift) simp_all
    then have "attn_rest c0 tail ctx (add_to_rows ?v (ln_1 ctx)) = attn_rest ?c1 tail ctx (ln_1 ctx)"
      by (simp only: attn_rest_def)
    moreover have "module_call run_bare_hook (ln_1 ctx) s
        = (Inr (ln_1 ctx), s\<lparr>evals := evals s @ [(ln_1 ctx, ln_1 ctx)]\<rparr>)"
      using that by (simp add: module_call_no_hooks)
    moreover have "module_call run_bare_hook (ln_1 ctx) t
        = (Inr (add_to_rows ?v (ln_1 ctx)),
           t\<lparr>captured := Some (add_to_rows ?v (ln_1 ctx)),
             evals := evals t @ [(ln_1 ctx, add_to_rows ?v (ln_1 ctx))]\<rparr>)"
      using that hd by (intro module_call_trace_add) simp_all
    ultimately show ?thesis
      using that by (simp add: forward_def hooked_point_def)
  qed
  have "?R u0 ?u1" using assms(1) by (simp add: register_hooks)
  with step have "fst (generate ?F1 eos n ids u0) = fst (generate ?F0 eos n ids ?u1)
      \<and> ?R (snd (generate ?F1 eos n ids u0)) (snd (generate ?F0 eos n ids ?u1))"
    by (rule generate_sim)
  moreover have "fst (with_trace (Some (tscale coeff [[v]])) (generate ?F0 eos n ids) u0)
      = fst (generate ?F0 eos n ids ?u1)"
    by (simp add: with_trace_def tscale_single split: prod.splits)
  ultimately have "fst (generate ?F1 eos n ids u0)
      = fst (with_trace (Some (tscale coeff [[v]])) (generate ?F0 eos n ids) u0)"
    by simp
  with change show ?thesis by (simp only: assms(10) simp_thms)
qed

section \<open>Facts about rounding\<close>

lemma fround_id [simp]: "fround (\<lambda>r. r) x = x"
  by (cases x) simp_all

lemma fadd_r_id: "fadd_r (\<lambda>r. r) = fadd"
  by (intro ext) (simp add: fadd_r_def)

lemma fmul_r_id: "fmul_r (\<lambda>r. r) = fmul"
  by (intro ext) (simp add: fmul_r_def)

lemma vecmat_r_id: "vecmat_r (\<lambda>r. r) n xs ws = vecmat n xs ws"
  by (induction n xs ws rule: vecmat.induct) (simp_all add: fadd_r_id fmul_r_id)

lemma addmm_r_id: "addmm_r (\<lambda>r. r) = addmm"
  by (intro ext) (simp only: addmm_r_def addmm_def fadd_r_id vecmat_r_id)

lemma conv1d_forward_r_id: "conv1d_forward_r (\<lambda>r. r) = conv1d_forward"
  by (intro ext) (simp only: conv1d_forward_r_def conv1d_forward_def addmm_r_id)

lemma exact_arithmetic:
  "tscale_r (\<lambda>r. r) = tscale"
  "act_add_bare_r (\<lambda>r. r) = act_add_bare"
  "run_bare_hook_r (\<lambda>r. r) = run_bare_hook"
  "change_bias_attn_r (\<lambda>r. r) = change_bias_attn"
  "attn_rest_r (\<lambda>r. r) = attn_rest"
proof -
  show "tscale_r (\<lambda>r. r) = tscale"
    by (intro ext) (simp add: tscale_r_def tscale_def fmul_r_id)
  show a: "act_add_bare_r (\<lambda>r. r) = act_add_bare"
    by (intro ext) (simp add: act_add_bare_r_def act_add_bare_def tadd_r_def tadd_def fadd_r_id)
  show "run_bare_hook_r (\<lambda>r. r) = run_bare_hook"
  proof (intro ext)
    fix h out kept
    show "run_bare_hook_r (\<lambda>r. r) h out kept = run_bare_hook h out kept"
      by (cases "(h, out, kept)" rule: run_bare_hook.cases) (simp_all add: a)
  qed
  show "change_bias_attn_r (\<lambda>r. r) = change_bias_attn"
    by (intro ext) (simp only: change_bias_attn_r_def change_bias_attn_def conv1d_forward_r_id)
  show "attn_rest_r (\<lambda>r. r) = attn_rest"
    by (intro ext) (simp only: attn_rest_r_def attn_rest_def conv1d_forward_r_id)
qed

lemma round32_eval:
  assumes "0 < x" and "2 powr of_int e \<le> x" and "x < 2 powr (of_int e + 1)"
  shows "round32 x = of_int (round_even (x / 2 powr (of_int e - 23))) * 2 powr (of_int e - 23)"
proof -
  have "\<lfloor>log 2 x\<rfloor> = e"
    using assms by (simp add: floor_log_eq_powr_iff)
  with assms(1) show ?thesis by (simp add: round32_def Let_def)
qed

lemma powr_minus_numeral: "2 powr (- numeral k :: real) = 1 / 2 ^ numeral k"
proof -
  have "2 powr (- numeral k :: real) = 1 / 2 powr numeral k" by (simp add: powr_minus_divide)
  also have "(2::real) powr numeral k = 2 ^ numeral k" by (rule powr_numeral) simp
  finally show ?thesis .
qed

lemma round32_values:
  "round32 0 = 0"
  "round32 1 = 1"
  "round32 (1 / 16777216) = 1 / 16777216"
  "round32 (1 / 8388608) = 1 / 8388608"
  "round32 (16777217 / 16777216) = 1"
  "round32 (8388609 / 8388608) = 8388609 / 8388608"
proof -
  show "round32 0 = 0" by (simp add: round32_def)
  show "round32 1 = 1"
    using round32_eval[of 1 0] by (simp add: powr_minus_numeral round_even_def)
  show "round32 (1 / 16777216) = 1 / 16777216"
    using round32_eval[of "1 / 16777216" "- 24"]
    by (simp add: powr_minus_numeral round_even_def Let_def)
  show "round32 (1 / 8388608) = 1 / 8388608"
    using round32_eval[of "1 / 8388608" "- 23"]
    by (simp add: powr_minus_numeral round_even_def Let_def)
  show "round32 (16777217 / 16777216) = 1"
    using round32_eval[of "16777217 / 16777216" 0]
    by (simp add: powr_minus_numeral round_even_def Let_def)
  show "round32 (8388609 / 8388608) = 8388609 / 8388608"
    using round32_eval[of "8388609 / 8388608" 0]
    by (simp add: powr_minus_numeral round_even_def Let_def)
qed

text \<open>
  Claim C3 as stated fails under the rounding of the tensor library. With the weight
  (1, 0), the bias \<open>2\<^sup>-\<^sup>2\<^sup>4\<close>, the layer-norm output (1, 0), the steering vector
  (\<open>2\<^sup>-\<^sup>2\<^sup>4\<close>, 0) and coefficient 1, the edited bias is \<open>2\<^sup>-\<^sup>2\<^sup>3\<close> and the projection
  gives \<open>1 + 2\<^sup>-\<^sup>2\<^sup>3\<close>, while the injection gives 1, the sum \<open>1 + 2\<^sup>-\<^sup>2\<^sup>4\<close> being rounded to
  1 twice. A remainder of the model that tells the two apart generates token 6 after
  the bias edit and token 5 under the injection.
\<close>

theorem bias_edit_rounding_counterexample:
  "change_bias_attn_r round32 \<lparr>nf = 1, weight = [[Fin 1], [Fin 0]], bias = R1 [Fin (1 / 16777216)]\<rparr>
        (tscale_r round32 1 [[[Fin (1 / 16777216), Fin 0]]])
       = Inr \<lparr>nf = 1, weight = [[Fin 1], [Fin 0]], bias = R1 [Fin (1 / 8388608)]\<rparr>
   \<and> fst (generate (forward (hooked_point (run_bare_hook_r round32) (\<lambda>ctx. [[[Fin 1, Fin 0]]]))
          (attn_rest_r round32 \<lparr>nf = 1, weight = [[Fin 1], [Fin 0]], bias = R1 [Fin (1 / 8388608)]\<rparr>
             (\<lambda>ctx y. if y = R3 [[[Fin 1]]] then 5 else 6)))
          0 1 [1] \<lparr>hooks = [], next_id = 0, captured = None, evals = []\<rparr>)
       = Inr [1, 6]
   \<and> fst (with_trace (Some (tscale_r round32 1 [[[Fin (1 / 16777216), Fin 0]]]))
          (generate (forward (hooked_point (run_bare_hook_r round32) (\<lambda>ctx. [[[Fin 1, Fin 0]]]))
             (attn_rest_r round32 \<lparr>nf = 1, weight = [[Fin 1], [Fin 0]], bias = R1 [Fin (1 / 16777216)]\<rparr>
                (\<lambda>ctx y. if y = R3 [[[Fin 1]]] then 5 else 6)))
             0 1 [1])
          \<lparr>hooks = [], next_id = 0, captured = None, evals = []\<rparr>)
       = Inr [1, 5]"
  by (simp add: change_bias_attn_r_def conv1d_forward_r_def addmm_r_def expand_bias_def expand_def
      squeeze_def squeeze2_def squeeze1_def tscale_r_def fmul_r_def fadd_r_def attn_rest_r_def
      forward_def hooked_point_def module_call_def with_trace_def register_forward_hook_def
      act_add_bare_r_def tadd_r_def tbin_def bcast_def round32_values)

text \<open>
  Claim C3, amended. When the additions and multiplications are exact (finite values,
  nothing rounded), for a projection with finite weight and bias and layer-norm
  outputs with finite entries, generation after
  \<open>change_bias_attn(model, layer_id, coeff * v)\<close> returns what generation returns with
  \<open>act_add(coeff * v)\<close> attached to the layer norm by a \<open>Trace\<close>; the edited bias is the
  original bias plus \<open>coeff * v\<close> times the weight.
\<close>

theorem bias_edit_equals_injection:
  fixes u0 :: "(bare_hook, tensor option, tensor) hooked"
  assumes "hooks u0 = []"
    and "bias c0 = R1 b" and "finite_vec b" and "length b = nf c0"
    and "wf_weight (nf c0) (weight c0)"
    and "finite_vec v" and "length v = length (weight c0)" and "length v \<noteq> 1"
    and "\<forall>ctx. finite_tensor (ln_1 ctx) \<and> hidden_dim (length v) (ln_1 ctx)"
    and "c1 = c0\<lparr>bias := R1 (map2 fadd b (vecmat (nf c0) (map (fmul (Fin coeff)) v) (weight c0)))\<rparr>"
  shows "change_bias_attn_r (\<lambda>r. r) c0 (tscale_r (\<lambda>r. r) coeff [[v]]) = Inr c1
         \<and> fst (generate (forward (hooked_point (run_bare_hook_r (\<lambda>r. r)) ln_1)
                   (attn_rest_r (\<lambda>r. r) c1 tail)) eos n ids u0)
             = fst (with_trace (Some (tscale_r (\<lambda>r. r) coeff [[v]]))
                     (generate (forward (hooked_point (run_bare_hook_r (\<lambda>r. r)) ln_1)
                        (attn_rest_r (\<lambda>r. r) c0 tail)) eos n ids)
                     u0)"
  using bias_edit_equals_injection_exact[OF assms] by (simp only: exact_arithmetic)

text \<open>
  An instance of the amended C3: with exact arithmetic both mechanisms generate the
  tokens 7 and 8, the baseline generates 9 and 9.
\<close>

theorem bias_edit_equals_injection_witness:
  "wf_weight 1 [[Fin 2], [Fin 3]] \<and> finite_vec [Fin 1, Fin 1]
   \<and> change_bias_attn_r (\<lambda>r. r) \<lparr>nf = 1, weight = [[Fin 2], [Fin 3]], bias = R1 [Fin 1]\<rparr>
        (tscale_r (\<lambda>r. r) 10 [[[Fin 1, Fin 1]]])
       = Inr \<lparr>nf = 1, weight = [[Fin 2], [Fin 3]], bias = R1 [Fin 51]\<rparr>
   \<and> fst (generate (forward (hooked_point (run_bare_hook_r (\<lambda>r. r))
             (\<lambda>ctx. [[[Fin (real (length ctx)), Fin 0]]]))
          (attn_rest_r (\<lambda>r. r) \<lparr>nf = 1, weight = [[Fin 2], [Fin 3]], bias = R1 [Fin 51]\<rparr>
             (\<lambda>ctx y. if y = R3 [[[Fin 53]]] then 7 else if y = R3 [[[Fin 55]]] then 8 else 9)))
          0 2 [1] \<lparr>hooks = [], next_id = 0, captured = None, evals = []\<rparr>)
       = Inr [1, 7, 8]
   \<and> fst (with_trace (Some (tscale_r (\<lambda>r. r) 10 [[[Fin 1, Fin 1]]]))
          (generate (forward (hooked_point (run_bare_hook_r (\<lambda>r. r))
                (\<lambda>ctx. [[[Fin (real (length ctx)), Fin 0]]]))
             (attn_rest_r (\<lambda>r. r) \<lparr>nf = 1, weight = [[Fin 2], [Fin 3]], bias = R1 [Fin 1]\<rparr>
                (\<lambda>ctx y. if y = R3 [[[Fin 53]]] then 7 else if y = R3 [[[Fin 55]]] then 8 else 9)))
             0 2 [1])
          \<lparr>hooks = [], next_id = 0, captured = None, evals = []\<rparr>)
       = Inr [1, 7, 8]
   \<and> fst (generate (forward (hooked_point (run_bare_hook_r (\<lambda>r. r))
             (\<lambda>ctx. [[[Fin (real (length ctx)), Fin 0]]]))
          (attn_rest_r (\<lambda>r. r) \<lparr>nf = 1, weight = [[Fin 2], [Fin 3]], bias = R1 [Fin 1]\<rparr>
             (\<lambda>ctx y. if y = R3 [[[Fin 53]]] then 7 else if y = R3 [[[Fin 55]]] then 8 else 9)))
          0 2 [1] \<lparr>hooks = [], next_id = 0, captured = None, evals = []\<rparr>)
       = Inr [1, 9, 9]"
  using bias_edit_equals_injection[where
      ?u0.0 = "\<lparr>hooks = [], next_id = 0, captured = None, evals = []\<rparr>"
      and ?c0.0 = "\<lparr>nf = 1, weight = [[Fin 2], [Fin 3]], bias = R1 [Fin 1]\<rparr>"
      and b = "[Fin 1]" and v = "[Fin 1, Fin 1]" and coeff = 10
      and ?ln_1.0 = "\<lambda>ctx. [[[Fin (real (length ctx)), Fin 0]]]"
      and ?c1.0 = "\<lparr>nf = 1, weight = [[Fin 2], [Fin 3]], bias = R1 [Fin 51]\<rparr>"
      and tail = "\<lambda>ctx y. if y = R3 [[[Fin 53]]] then 7 else if y = R3 [[[Fin 55]]] then 8 else 9"
      and eos = 0 and n = 2 and ids = "[1]"]
  by (simp add: exact_arithmetic wf_weight_def finite_vec_def finite_tensor_def hidden_dim_def
      numeral_2_eq_2 forward_def hooked_point_def module_call_def attn_rest_def
      conv1d_forward_def addmm_def expand_bias_def expand_def)

text \<open>
  Claim C10. Every forward evaluation of the wrapper overwrites its field \<open>output\<close>
  with what the wrapped module returned, whatever was stored before; with a steering
  vector set, the value returned is the steered tuple and the stored one is the
  unsteered original; after two evaluations in sequence the stored activation is that
  of the second.
\<close>

theorem wrapper_keeps_latest_unsteered_output:
  fixes f :: "nat list \<Rightarrow> 'x block_out"
  shows
    "(\<forall>y m'. layer_forward m ids = (Inr y, m') \<longrightarrow>
        layer_forward (WrappedModule m kept sv) ids
          = ((case sv of None \<Rightarrow> Inr y | Some v \<Rightarrow> act_add v y), WrappedModule m' (Some y) sv))
     \<and> layer_forward (WrappedModule (Block f) kept sv) ids
         = ((case sv of None \<Rightarrow> Inr (f ids) | Some v \<Rightarrow> act_add v (f ids)),
            WrappedModule (Block f) (Some (f ids)) sv)
     \<and> output_activation (snd (layer_forward (WrappedModule (Block f) kept sv) ids))
         = Inr (fst (f ids))
     \<and> output_activation
          (snd (layer_forward (snd (layer_forward (WrappedModule (Block f) kept sv) ids)) ids2))
         = Inr (fst (f ids2))
     \<and> (has_shape (fst (f ids)) (b, s, h) \<and> length v = h \<longrightarrow>
          layer_forward (WrappedModule (Block f) kept (Some [[v]])) ids
            = (Inr (add_to_rows v (fst (f ids)), snd (f ids)),
               WrappedModule (Block f) (Some (f ids)) (Some [[v]])))"
proof -
  have "layer_forward (WrappedModule (Block f) kept (Some [[v]])) ids
            = (Inr (add_to_rows v (fst (f ids)), snd (f ids)),
               WrappedModule (Block f) (Some (f ids)) (Some [[v]]))"
    if "has_shape (fst (f ids)) (b, s, h)" "length v = h"
  proof -
    have "hidden_dim (length v) (fst (f ids))"
      using that by (simp add: has_shape_hidden_dim)
    then show ?thesis by (simp add: act_add_def tadd_single)
  qed
  then show ?thesis by (auto split: option.splits)
qed

text \<open>An instance of C10.\<close>

theorem wrapper_keeps_latest_unsteered_output_witness:
  "has_shape [[[Fin 1, Fin 0]]] (1, 1, 2)
   \<and> layer_forward (WrappedModule (Block (\<lambda>ctx. ([[[Fin (real (length ctx)), Fin 0]]], [length ctx])))
        None (Some [[[Fin 10, Fin 20]]])) [7]
       = (Inr ([[[Fin 11, Fin 20]]], [1]),
          WrappedModule (Block (\<lambda>ctx. ([[[Fin (real (length ctx)), Fin 0]]], [length ctx])))
            (Some ([[[Fin 1, Fin 0]]], [1])) (Some [[[Fin 10, Fin 20]]]))
   \<and> output_activation (snd (layer_forward (snd (layer_forward
        (WrappedModule (Block (\<lambda>ctx. ([[[Fin (real (length ctx)), Fin 0]]], [length ctx])))
           None (Some [[[Fin 10, Fin 20]]])) [7])) [7, 8]))
       = Inr [[[Fin 2, Fin 0]]]"
  using wrapper_keeps_latest_unsteered_output[where
      f = "\<lambda>ctx. ([[[Fin (real (length ctx)), Fin 0]]], [length ctx])"
      and m = "Block (\<lambda>ctx. ([[[Fin (real (length ctx)), Fin 0]]], [length ctx]))"
      and kept = None and sv = "Some [[[Fin 10, Fin 20]]]" and ids = "[7]" and ?ids2.0 = "[7, 8]"
      and b = 1 and s = 1 and h = 2 and v = "[Fin 10, Fin 20]"]
  by (simp add: has_shape_def add_to_rows_def)

end
